theory Spec2Isabelle
  imports Complex_Main
begin

section \<open>Values shared by the bet ledger and the wallet gateway\<close>

text \<open>
  The TypeScript sources are \<^verbatim>\<open>services/bet/bet.service.ts\<close>,
  \<^verbatim>\<open>services/wallet/wallet.service.ts\<close>, \<^verbatim>\<open>entities/bet.entity.ts\<close> and
  \<^verbatim>\<open>enums/bet-status.enum.ts\<close>. Strings are lists of 8-bit characters (Latin-1 code
  units), a \<^verbatim>\<open>Date\<close> is its number of milliseconds, an optional property
  (\<^verbatim>\<open>x?: T\<close>) is an \<open>option\<close> with \<open>None\<close> for \<^verbatim>\<open>undefined\<close>, and a
  JavaScript \<^verbatim>\<open>number\<close> is a rational: the rounding of IEEE doubles is written out
  only where a comparison depends on it (\<open>Number_gt_zero\<close>).
\<close>

datatype json =
    JNull
  | JBool bool
  | JNum rat
  | JStr string
  | JArr "json list"
  | JObj "(string \<times> json) list"

text \<open>\<^verbatim>\<open>enum BetStatus\<close> of \<^verbatim>\<open>enums/bet-status.enum.ts\<close>.\<close>

datatype BetStatus =
    PLACED
  | PENDING_SETTLEMENT
  | WON
  | LOST
  | CANCELLED
  | REFUNDED
  | SETTLEMENT_FAILED

text \<open>
  What a call can throw. \<open>HttpClientError\<close> is the error object with which the HTTP
  client rejects; the wallet gateway reads its \<^verbatim>\<open>response\<close> (status and body),
  \<^verbatim>\<open>code\<close>, \<^verbatim>\<open>name\<close> and \<^verbatim>\<open>message\<close>. \<open>QueryFailedError\<close> is the
  store refusing a row that breaks a unique index.
\<close>

record HttpError =
  e_response :: "(int option \<times> json option) option"
  e_code :: "string option"
  e_name :: string
  e_message :: string

datatype exn =
    ConflictException string
  | NotFoundException string
  | InternalServerErrorException string
  | QueryFailedError string
  | HttpClientError HttpError

section \<open>\<^verbatim>\<open>Number(string)\<close> and the test \<^verbatim>\<open>Number(s) > 0\<close>\<close>

text \<open>
  \<^verbatim>\<open>recordSettlement\<close> decides a win by \<^verbatim>\<open>Number(bet.winAmount) > 0\<close> on a string.
  \<open>Number\<close> follows ECMAScript's StringToNumber: white space is trimmed, the empty
  string is \<open>0\<close>, the text is a signed decimal literal (digits, an optional fraction,
  an optional exponent, or \<^verbatim>\<open>Infinity\<close>) or an unsigned binary, octal or
  hexadecimal integer, and anything else is \<open>NaN\<close>. A finite result is kept exact as
  sign, decimal mantissa and decimal exponent; the rounding to a double matters to the
  comparison with zero only by underflow, which \<open>gt_zero\<close> writes out: a positive value
  rounds to \<open>0\<close> exactly when it is at most \<open>2 ^ -1075\<close>, half the least positive double.
\<close>

datatype jsnum = NaN | Infinity bool | Finite bool nat int

definition isStrWhiteSpaceChar :: "char \<Rightarrow> bool" where
  "isStrWhiteSpaceChar c \<longleftrightarrow>
     c \<in> set [CHR 0x09, CHR 0x0A, CHR 0x0B, CHR 0x0C, CHR 0x0D, CHR 0x20, CHR 0xA0]"

definition trim :: "string \<Rightarrow> string" where
  "trim s = rev (dropWhile isStrWhiteSpaceChar (rev (dropWhile isStrWhiteSpaceChar s)))"

definition isDecimalDigit :: "char \<Rightarrow> bool" where
  "isDecimalDigit c \<longleftrightarrow> c \<in> set ''0123456789''"

definition isHexDigit :: "char \<Rightarrow> bool" where
  "isHexDigit c \<longleftrightarrow> c \<in> set ''0123456789abcdefABCDEF''"

definition digitValue :: "char \<Rightarrow> nat" where
  "digitValue c =
     (if c \<in> set ''abcdef'' then of_char c - 87
      else if c \<in> set ''ABCDEF'' then of_char c - 55
      else of_char c - 48)"

definition digitsValue :: "nat \<Rightarrow> string \<Rightarrow> nat" where
  "digitsValue base ds = foldl (\<lambda>acc c. base * acc + digitValue c) 0 ds"

definition ExponentPart :: "string \<Rightarrow> int option" where
  "ExponentPart r =
     (case r of
        [] \<Rightarrow> Some 0
      | c # t \<Rightarrow>
          if c = CHR ''e'' \<or> c = CHR ''E'' then
            (let neg = (t \<noteq> [] \<and> hd t = CHR ''-'');
                 ds = (if t \<noteq> [] \<and> (hd t = CHR ''+'' \<or> hd t = CHR ''-'') then tl t else t)
             in if ds \<noteq> [] \<and> list_all isDecimalDigit ds
                then Some (if neg then - int (digitsValue 10 ds) else int (digitsValue 10 ds))
                else None)
          else None)"

definition StrUnsignedDecimalLiteral :: "bool \<Rightarrow> string \<Rightarrow> jsnum" where
  "StrUnsignedDecimalLiteral neg s =
     (if s = ''Infinity'' then Infinity neg
      else
        let ip = takeWhile isDecimalDigit s;
            r1 = dropWhile isDecimalDigit s;
            dot = (r1 \<noteq> [] \<and> hd r1 = CHR ''.'');
            fp = (if dot then takeWhile isDecimalDigit (tl r1) else []);
            r2 = (if dot then dropWhile isDecimalDigit (tl r1) else r1)
        in if ip = [] \<and> fp = [] then NaN
           else (case ExponentPart r2 of
                   None \<Rightarrow> NaN
                 | Some e \<Rightarrow> Finite neg (digitsValue 10 (ip @ fp)) (e - int (length fp))))"

definition NonDecimalIntegerLiteral :: "string \<Rightarrow> jsnum option" where
  "NonDecimalIntegerLiteral s =
     (case s of
        c0 # c1 # ds \<Rightarrow>
          if c0 = CHR ''0'' \<and> ds \<noteq> [] then
            (if (c1 = CHR ''x'' \<or> c1 = CHR ''X'') \<and> list_all isHexDigit ds
               then Some (Finite False (digitsValue 16 ds) 0)
             else if (c1 = CHR ''o'' \<or> c1 = CHR ''O'') \<and> list_all (\<lambda>c. c \<in> set ''01234567'') ds
               then Some (Finite False (digitsValue 8 ds) 0)
             else if (c1 = CHR ''b'' \<or> c1 = CHR ''B'') \<and> list_all (\<lambda>c. c \<in> set ''01'') ds
               then Some (Finite False (digitsValue 2 ds) 0)
             else None)
          else None
      | _ \<Rightarrow> None)"

definition Number :: "string \<Rightarrow> jsnum" where
  "Number s =
     (let t = trim s in
      if t = [] then Finite False 0 0
      else (case NonDecimalIntegerLiteral t of
              Some n \<Rightarrow> n
            | None \<Rightarrow>
                if hd t = CHR ''+'' then StrUnsignedDecimalLiteral False (tl t)
                else if hd t = CHR ''-'' then StrUnsignedDecimalLiteral True (tl t)
                else StrUnsignedDecimalLiteral False t))"

definition gt_zero :: "jsnum \<Rightarrow> bool" where
  "gt_zero n =
     (case n of
        NaN \<Rightarrow> False
      | Infinity neg \<Rightarrow> \<not> neg
      | Finite neg m e \<Rightarrow>
          \<not> neg \<and> 0 < m \<and> (0 \<le> e \<or> (10::int) ^ nat (- e) < int m * 2 ^ 1075))"

definition Number_gt_zero :: "string \<Rightarrow> bool" where
  "Number_gt_zero s = gt_zero (Number s)"

section \<open>The Bet entity and its repository\<close>

record FairnessData =
  decimal :: "string option"
  clientSeed :: "string option"
  serverSeed :: "string option"
  combinedHash :: "string option"
  hashedServerSeed :: "string option"

text \<open>
  \<^verbatim>\<open>class Bet\<close> of \<^verbatim>\<open>entities/bet.entity.ts\<close>, one field per column. The generated
  primary key \<^verbatim>\<open>id\<close> (a uuid in the source) is a natural number here, and
  \<^verbatim>\<open>isPremium\<close> carries its column default \<^verbatim>\<open>false\<close>.
\<close>

record Bet =
  bet_id :: nat
  externalPlatformTxId :: string
  userId :: string
  roundId :: string
  gameMetadata :: "json option"
  betAmount :: string
  winAmount :: "string option"
  currency :: string
  status :: BetStatus
  settlementRefTxId :: "string option"
  isPremium :: bool
  betPlacedAt :: "int option"
  settledAt :: "int option"
  gameCode :: string
  gameInfo :: "string option"
  balanceAfterBet :: "string option"
  balanceAfterSettlement :: "string option"
  createdAt :: int
  updatedAt :: int
  createdBy :: "string option"
  updatedBy :: "string option"
  operatorId :: string
  finalCoeff :: "string option"
  withdrawCoeff :: "string option"
  fairnessData :: "FairnessData option"

text \<open>\<^verbatim>\<open>interface CreateBetParams\<close> (fields prefixed \<open>c_\<close>).\<close>

record CreateBetParams =
  c_externalPlatformTxId :: string
  c_userId :: string
  c_roundId :: string
  c_betAmount :: string
  c_currency :: string
  c_gameCode :: string
  c_createdBy :: string
  c_operatorId :: string
  c_gameMetadata :: "json option"
  c_winAmount :: "string option"
  c_status :: "BetStatus option"
  c_settlementRefTxId :: "string option"
  c_isPremium :: "bool option"
  c_betPlacedAt :: "int option"
  c_settledAt :: "int option"
  c_gameInfo :: "string option"
  c_balanceAfterBet :: "string option"
  c_balanceAfterSettlement :: "string option"
  c_updatedBy :: "string option"
  c_finalCoeff :: "string option"
  c_withdrawCoeff :: "string option"
  c_fairnessData :: "FairnessData option"

text \<open>\<^verbatim>\<open>interface SettlementParams\<close> (fields prefixed \<open>s_\<close>).\<close>

record SettlementParams =
  s_externalPlatformTxId :: string
  s_winAmount :: string
  s_updatedBy :: string
  s_gameMetadata :: "json option"
  s_settlementRefTxId :: "string option"
  s_settledAt :: "int option"
  s_balanceAfterSettlement :: "string option"
  s_gameInfo :: "string option"
  s_finalCoeff :: "string option"
  s_withdrawCoeff :: "string option"
  s_fairnessData :: "FairnessData option"
  s_status :: "BetStatus option"
  s_userId :: "string option"
  s_roundId :: "string option"
  s_betAmount :: "string option"
  s_currency :: "string option"
  s_gameCode :: "string option"
  s_isPremium :: "bool option"
  s_betPlacedAt :: "int option"
  s_balanceAfterBet :: "string option"
  s_operatorId :: "string option"



definition BET_EXISTS :: string where
  "BET_EXISTS = ''Bet already exists (idempotent placement)''"


definition SETTLEMENT_NOT_FOUND :: string where
  "SETTLEMENT_NOT_FOUND = ''Bet not found for settlement''"

text \<open>
  The \<^verbatim>\<open>where\<close> clause built by \<^verbatim>\<open>whereByExternalTx\<close>: the transaction id, and
  the game code only when it is truthy (\<^verbatim>\<open>if (gameCode)\<close>: given and not empty).
\<close>

record FindWhere =
  w_externalPlatformTxId :: string
  w_gameCode :: "string option"

definition whereByExternalTx :: "string \<Rightarrow> string option \<Rightarrow> FindWhere" where
  "whereByExternalTx tx gc =
     (case gc of
        None \<Rightarrow> \<lparr>w_externalPlatformTxId = tx, w_gameCode = None\<rparr>
      | Some g \<Rightarrow>
          if g \<noteq> [] then \<lparr>w_externalPlatformTxId = tx, w_gameCode = Some g\<rparr>
          else \<lparr>w_externalPlatformTxId = tx, w_gameCode = None\<rparr>)"

definition matches :: "FindWhere \<Rightarrow> Bet \<Rightarrow> bool" where
  "matches w b \<longleftrightarrow>
     externalPlatformTxId b = w_externalPlatformTxId w \<and>
     (case w_gameCode w of None \<Rightarrow> True | Some g \<Rightarrow> gameCode b = g)"

text \<open>
  The repository is the list of stored rows. \<^verbatim>\<open>repo.findOne\<close> gives the first row that
  matches; \<^verbatim>\<open>repo.save\<close> of a new entity inserts it with a fresh id and both
  timestamps, unless the unique index on \<^verbatim>\<open>externalPlatformTxId\<close> refuses it;
  \<^verbatim>\<open>repo.save\<close> of a loaded entity replaces the row of that id and stamps
  \<^verbatim>\<open>updatedAt\<close>.
\<close>

type_synonym repo = "Bet list"

definition findOne :: "FindWhere \<Rightarrow> repo \<Rightarrow> Bet option" where
  "findOne w rows = find (matches w) rows"

definition fresh_id :: "repo \<Rightarrow> nat" where
  "fresh_id rows = Suc (fold max (map bet_id rows) 0)"

definition save_new :: "int \<Rightarrow> Bet \<Rightarrow> repo \<Rightarrow> (exn + Bet) \<times> repo" where
  "save_new now e rows =
     (if list_ex (\<lambda>r. externalPlatformTxId r = externalPlatformTxId e) rows
      then (Inl (QueryFailedError ''Duplicate entry for externalPlatformTxId''), rows)
      else
        let saved = e\<lparr>bet_id := fresh_id rows, createdAt := now, updatedAt := now\<rparr>
        in (Inr saved, rows @ [saved]))"

definition save :: "int \<Rightarrow> Bet \<Rightarrow> repo \<Rightarrow> Bet \<times> repo" where
  "save now b rows =
     (let saved = b\<lparr>updatedAt := now\<rparr>
      in (saved, map (\<lambda>r. if bet_id r = bet_id b then saved else r) rows))"

section \<open>BetService\<close>

text \<open>
  \<^verbatim>\<open>createPlacement\<close>. The optional game validation service is
  \<open>Some validateGame\<close> when injected; \<open>validateGame g\<close> is the exception it throws
  for game code \<open>g\<close>, if any.
\<close>

definition createPlacement ::
  "(string \<Rightarrow> exn option) option \<Rightarrow> int \<Rightarrow> CreateBetParams \<Rightarrow> repo \<Rightarrow> (exn + Bet) \<times> repo" where
  "createPlacement gameValidationService now params rows =
     (case (case gameValidationService of
              None \<Rightarrow> None
            | Some validateGame \<Rightarrow> validateGame (c_gameCode params)) of
        Some thrown \<Rightarrow> (Inl thrown, rows)
      | None \<Rightarrow>
          (case findOne (whereByExternalTx (c_externalPlatformTxId params)
                           (Some (c_gameCode params))) rows of
             Some existing \<Rightarrow> (Inl (ConflictException BET_EXISTS), rows)
           | None \<Rightarrow>
               save_new now
                 \<lparr>bet_id = 0,
                  externalPlatformTxId = c_externalPlatformTxId params,
                  userId = c_userId params,
                  roundId = c_roundId params,
                  gameMetadata = c_gameMetadata params,
                  betAmount = c_betAmount params,
                  winAmount = c_winAmount params,
                  currency = c_currency params,
                  status = (case c_status params of None \<Rightarrow> PLACED | Some st \<Rightarrow> st),
                  settlementRefTxId = c_settlementRefTxId params,
                  isPremium = (case c_isPremium params of None \<Rightarrow> False | Some p \<Rightarrow> p),
                  betPlacedAt = c_betPlacedAt params,
                  settledAt = c_settledAt params,
                  gameCode = c_gameCode params,
                  gameInfo = c_gameInfo params,
                  balanceAfterBet = c_balanceAfterBet params,
                  balanceAfterSettlement = c_balanceAfterSettlement params,
                  createdAt = now,
                  updatedAt = now,
                  createdBy = Some (c_createdBy params),
                  updatedBy =
                    Some (case c_updatedBy params of
                            None \<Rightarrow> c_createdBy params
                          | Some by \<Rightarrow> by),
                  operatorId = c_operatorId params,
                  finalCoeff = c_finalCoeff params,
                  withdrawCoeff = c_withdrawCoeff params,
                  fairnessData = c_fairnessData params\<rparr>
                 rows))"

text \<open>
  \<^verbatim>\<open>if (params.f !== undefined) { bet.f = params.f; }\<close> for a column that is never
  null (\<open>ifProvided\<close>) and for a nullable one (\<open>ifProvidedOpt\<close>).
\<close>

definition ifProvided :: "'a option \<Rightarrow> 'a \<Rightarrow> 'a" where
  "ifProvided p old = (case p of None \<Rightarrow> old | Some v \<Rightarrow> v)"

definition ifProvidedOpt :: "'a option \<Rightarrow> 'a option \<Rightarrow> 'a option" where
  "ifProvidedOpt p old = (case p of None \<Rightarrow> old | Some v \<Rightarrow> Some v)"

text \<open>
  The assignments of \<^verbatim>\<open>recordSettlement\<close> to the loaded entity, in the source's order:
  \<^verbatim>\<open>winAmount\<close> and \<^verbatim>\<open>updatedBy\<close> always, each optional field when provided,
  \<^verbatim>\<open>settledAt\<close> with \<^verbatim>\<open>new Date()\<close> as its default, then the status.
\<close>

definition settledStatus :: "BetStatus option \<Rightarrow> string option \<Rightarrow> BetStatus" where
  "settledStatus explicit win =
     (case explicit of
        Some st \<Rightarrow> st
      | None \<Rightarrow>
          (case win of
             None \<Rightarrow> LOST
           | Some w \<Rightarrow> if w \<noteq> [] \<and> Number_gt_zero w then WON else LOST))"

definition applySettlement :: "int \<Rightarrow> SettlementParams \<Rightarrow> Bet \<Rightarrow> Bet" where
  "applySettlement now params bet =
     (let bet1 = bet
        \<lparr>winAmount := Some (s_winAmount params),
         updatedBy := Some (s_updatedBy params),
         gameMetadata := ifProvidedOpt (s_gameMetadata params) (gameMetadata bet),
         settlementRefTxId := ifProvidedOpt (s_settlementRefTxId params) (settlementRefTxId bet),
         settledAt := (case s_settledAt params of None \<Rightarrow> Some now | Some t \<Rightarrow> Some t),
         balanceAfterSettlement :=
           ifProvidedOpt (s_balanceAfterSettlement params) (balanceAfterSettlement bet),
         gameInfo := ifProvidedOpt (s_gameInfo params) (gameInfo bet),
         finalCoeff := ifProvidedOpt (s_finalCoeff params) (finalCoeff bet),
         withdrawCoeff := ifProvidedOpt (s_withdrawCoeff params) (withdrawCoeff bet),
         fairnessData := ifProvidedOpt (s_fairnessData params) (fairnessData bet),
         userId := ifProvided (s_userId params) (userId bet),
         roundId := ifProvided (s_roundId params) (roundId bet),
         betAmount := ifProvided (s_betAmount params) (betAmount bet),
         currency := ifProvided (s_currency params) (currency bet),
         gameCode := ifProvided (s_gameCode params) (gameCode bet),
         isPremium := ifProvided (s_isPremium params) (isPremium bet),
         betPlacedAt := ifProvidedOpt (s_betPlacedAt params) (betPlacedAt bet),
         balanceAfterBet := ifProvidedOpt (s_balanceAfterBet params) (balanceAfterBet bet),
         operatorId := ifProvided (s_operatorId params) (operatorId bet)\<rparr>
      in bet1\<lparr>status := settledStatus (s_status params) (winAmount bet1)\<rparr>)"

definition recordSettlement :: "int \<Rightarrow> SettlementParams \<Rightarrow> repo \<Rightarrow> (exn + Bet) \<times> repo" where
  "recordSettlement now params rows =
     (case findOne (whereByExternalTx (s_externalPlatformTxId params) None) rows of
        None \<Rightarrow> (Inl (NotFoundException SETTLEMENT_NOT_FOUND), rows)
      | Some bet \<Rightarrow>
          if status bet = WON \<or> status bet = LOST then (Inr bet, rows)
          else
            (case save now (applySettlement now params bet) rows of
               (settled, rows') \<Rightarrow> (Inr settled, rows')))"






section \<open>The second copy of recordSettlement\<close>

text \<open>
  The sources hold a second copy of \<^verbatim>\<open>BetService\<close>, one without
  \<^verbatim>\<open>updateBet\<close>. Its \<^verbatim>\<open>recordSettlement\<close> looks the bet up and short-circuits
  on Won and Lost as the first copy does, and differs in the assignments: its
  \<^verbatim>\<open>SettlementParams\<close> (fields prefixed \<open>s2_\<close>) has no \<^verbatim>\<open>status\<close>, and six
  fields are assigned whether the caller provided them or not. The assignments are
  modelled on the entity in memory, the one the call returns.
\<close>

record SettlementParams_secondCopy =
  s2_externalPlatformTxId :: string
  s2_winAmount :: string
  s2_settleType :: "string option"
  s2_settlementRefTxId :: "string option"
  s2_settledAt :: "int option"
  s2_balanceAfterSettlement :: "string option"
  s2_gameInfo :: "string option"
  s2_updatedBy :: string
  s2_finalCoeff :: "string option"
  s2_withdrawCoeff :: "string option"
  s2_fairnessData :: "FairnessData option"
  s2_gameMetadata :: "json option"

definition applySettlement_secondCopy :: "int \<Rightarrow> SettlementParams_secondCopy \<Rightarrow> Bet \<Rightarrow> Bet" where
  "applySettlement_secondCopy now params bet =
     (let bet1 = bet
        \<lparr>winAmount := Some (s2_winAmount params),
         settlementRefTxId := s2_settlementRefTxId params,
         settledAt := (case s2_settledAt params of None \<Rightarrow> Some now | Some t \<Rightarrow> Some t),
         balanceAfterSettlement := s2_balanceAfterSettlement params,
         gameInfo := s2_gameInfo params,
         finalCoeff := s2_finalCoeff params,
         withdrawCoeff := s2_withdrawCoeff params,
         fairnessData := s2_fairnessData params,
         gameMetadata := ifProvidedOpt (s2_gameMetadata params) (gameMetadata bet)\<rparr>
      in bet1\<lparr>status := settledStatus None (winAmount bet1),
               updatedBy := Some (s2_updatedBy params)\<rparr>)"

section \<open>WalletService: data\<close>

text \<open>
  A JavaScript object is the list of its properties in insertion order, without a
  property whose value is \<^verbatim>\<open>undefined\<close> (as \<^verbatim>\<open>JSON.stringify\<close> writes it).
  \<open>assignAll\<close> assigns properties one after the other, as an object literal with a
  spread does: a key that is already there keeps its place and takes the new value, and
  assigning \<^verbatim>\<open>undefined\<close> (\<open>None\<close>) removes the property.
\<close>

type_synonym obj = "(string \<times> json) list"

fun setProp :: "string \<Rightarrow> json \<Rightarrow> obj \<Rightarrow> obj" where
  "setProp k v [] = [(k, v)]"
| "setProp k v (p # ps) = (if fst p = k then (k, v) # ps else p # setProp k v ps)"

definition assign :: "obj \<Rightarrow> string \<times> json option \<Rightarrow> obj" where
  "assign target kv =
     (case snd kv of
        None \<Rightarrow> filter (\<lambda>p. fst p \<noteq> fst kv) target
      | Some v \<Rightarrow> setProp (fst kv) v target)"

definition assignAll :: "obj \<Rightarrow> (string \<times> json option) list \<Rightarrow> obj" where
  "assignAll target kvs = foldl assign target kvs"

definition spread :: "obj \<Rightarrow> (string \<times> json option) list" where
  "spread source = map (\<lambda>p. (fst p, Some (snd p))) source"

definition truthy :: "json \<Rightarrow> bool" where
  "truthy v =
     (case v of
        JNull \<Rightarrow> False
      | JBool b \<Rightarrow> b
      | JNum n \<Rightarrow> n \<noteq> 0
      | JStr s \<Rightarrow> s \<noteq> []
      | JArr xs \<Rightarrow> True
      | JObj ps \<Rightarrow> True)"

text \<open>
  \<^verbatim>\<open>WalletApiAction\<close>, \<^verbatim>\<open>WalletErrorType\<close> and \<^verbatim>\<open>WalletAuditStatus\<close> are
  imported by \<^verbatim>\<open>wallet.service.ts\<close> from files that are not part of the sources
  at hand; the members below are the ones the service names.
\<close>

datatype WalletApiAction = GET_BALANCE | PLACE_BET | SETTLE_BET | REFUND_BET

datatype WalletErrorType =
  AGENT_REJECTED | HTTP_ERROR | NETWORK_ERROR | TIMEOUT_ERROR | UNKNOWN_ERROR

datatype WalletAuditStatus = SUCCESS | FAILURE

record Agent =
  callbackURL :: string
  cert :: string
  agentId :: string

text \<open>
  \<^verbatim>\<open>interface WalletResponse\<close>. \<open>r_balance\<close> holds \<^verbatim>\<open>data.balance ?? 0\<close>, the
  operand of \<^verbatim>\<open>Number(...)\<close>: the coercion of an arbitrary value to a double is left
  out, and nothing below reads the balance.
\<close>

record WalletResponse =
  r_balance :: json
  r_balanceTs :: json
  r_status :: string
  r_userId :: json
  r_raw :: json

record PlaceBetParams =
  pb_agentId :: string
  pb_userId :: string
  pb_amount :: rat
  pb_roundId :: string
  pb_platformTxId :: string
  pb_currency :: "string option"
  pb_gameCode :: string

record SettleBetParams =
  sb_agentId :: string
  sb_platformTxId :: string
  sb_userId :: string
  sb_winAmount :: rat
  sb_roundId :: string
  sb_betAmount :: rat
  sb_gameCode :: string
  sb_gameSession :: "json option"

record RefundTransaction =
  rt_platformTxId :: string
  rt_refundPlatformTxId :: string
  rt_betAmount :: rat
  rt_winAmount :: rat
  rt_turnover :: "rat option"
  rt_betTime :: string
  rt_updateTime :: string
  rt_roundId :: string
  rt_gameCode :: string
  rt_gameInfo :: "json option"

record RefundBetParams =
  rb_agentId :: string
  rb_userId :: string
  rb_refundTransactions :: "RefundTransaction list"

text \<open>The body posted to the agent: \<^verbatim>\<open>{ key: cert, message: JSON.stringify(messageObj) }\<close>.\<close>

record Payload =
  k_key :: string
  k_message :: string

record HttpResponse =
  h_status :: int
  h_data :: json

text \<open>
  The argument of \<^verbatim>\<open>logAudit\<close>, without the response time, the error stack and the
  raw error text, which no property below reads. \<open>a_requestPayload\<close> is
  \<^verbatim>\<open>{ messageObj, url }\<close>.
\<close>

record AuditParams =
  a_requestId :: string
  a_agentId :: string
  a_userId :: string
  a_apiAction :: WalletApiAction
  a_status :: WalletAuditStatus
  a_requestPayload :: "(json \<times> string) option"
  a_requestUrl :: "string option"
  a_responseData :: "json option"
  a_httpStatus :: "int option"
  a_failureType :: "WalletErrorType option"
  a_errorMessage :: "string option"
  a_platformTxId :: "string option"
  a_roundId :: "string option"
  a_betAmount :: "rat option"
  a_winAmount :: "rat option"
  a_currency :: "json option"
  a_callbackUrl :: "string option"

text \<open>
  The argument of \<^verbatim>\<open>createRetryJobSafely\<close>. \<open>j_requestPayload\<close> is
  \<^verbatim>\<open>{ messageObj, url, payload }\<close>, and \<open>j_refundTransactions\<close> the batch that
  \<^verbatim>\<open>refundBet\<close> adds to it.
\<close>

record RetryParams =
  j_platformTxId :: string
  j_apiAction :: WalletApiAction
  j_agentId :: string
  j_userId :: string
  j_requestPayload :: "json \<times> string \<times> Payload"
  j_refundTransactions :: "RefundTransaction list option"
  j_callbackUrl :: string
  j_roundId :: "string option"
  j_betAmount :: "rat option"
  j_winAmount :: "rat option"
  j_currency :: "json option"
  j_gamePayloads :: "obj option"
  j_walletAuditId :: "nat option"
  j_errorMessage :: "string option"

record WalletAudit =
  wa_id :: nat
  wa_params :: AuditParams

record WalletRetryJob =
  rj_id :: nat
  rj_params :: RetryParams

text \<open>
  What the gateway leaves behind: the audit rows, the retry jobs and the requests it
  posted. The audit and retry writes are started without being awaited; a state
  returned below is the one reached once those writes have settled.
\<close>

record WalletState =
  audits :: "WalletAudit list"
  retryJobs :: "WalletRetryJob list"
  sent :: "(string \<times> Payload) list"

text \<open>
  The collaborators of \<^verbatim>\<open>WalletService\<close>, none of which is in the sources at hand:
  the agents service, the optional wallet API adapter (\<open>Inl\<close> when
  \<^verbatim>\<open>getGamePayloads\<close> throws), the HTTP client (\<open>Inl\<close> when the post rejects),
  whether an audit or a retry-job write fails, \<^verbatim>\<open>uuidv4()\<close>,
  \<^verbatim>\<open>new Date().toISOString()\<close> and \<^verbatim>\<open>JSON.stringify\<close>.
  \<open>frameworkErrorResponse\<close> says whether an exception object of the web framework
  has a truthy \<^verbatim>\<open>response\<close> property, which the \<^verbatim>\<open>catch\<close> blocks test (NestJS
  keeps the body of an \<^verbatim>\<open>HttpException\<close> in a property of that name).
\<close>

record Env =
  agentsService_findOne :: "string \<Rightarrow> Agent option"
  walletApiAdapter :: "(string \<Rightarrow> exn + obj) option"
  http_post :: "string \<Rightarrow> Payload \<Rightarrow> HttpError + HttpResponse"
  auditWriteFails :: "AuditParams \<Rightarrow> bool"
  retryWriteFails :: "RetryParams \<Rightarrow> bool"
  uuidv4 :: string
  toISOString_now :: string
  JSON_stringify :: "json \<Rightarrow> string"
  frameworkErrorResponse :: bool

section \<open>WalletService: the collaborators' contracts\<close>

text \<open>
  Modelled from the spec: \<^verbatim>\<open>WalletAuditService.logAudit\<close> is not in the sources.
  The spec gives \<^verbatim>\<open>AuditLog.append(record) -> recordId\<close>, one row per call attempt,
  never updated: a write that succeeds appends one row with a new id and resolves to
  it, a write that fails appends nothing and rejects.
\<close>

definition walletAuditService_logAudit ::
  "Env \<Rightarrow> AuditParams \<Rightarrow> WalletState \<Rightarrow> WalletAudit option \<times> WalletState" where
  "walletAuditService_logAudit env params s =
     (if auditWriteFails env params then (None, s)
      else
        let row = \<lparr>wa_id = length (audits s), wa_params = params\<rparr>
        in (Some row, s\<lparr>audits := audits s @ [row]\<rparr>))"

text \<open>
  Modelled from the spec: \<^verbatim>\<open>WalletRetryService.createRetryJob\<close> is not in the
  sources. The spec gives \<^verbatim>\<open>RetryQueue.enqueue(job) -> jobId\<close>: a write that
  succeeds appends one job, a write that fails appends nothing and rejects.
\<close>

definition retryJobService_createRetryJob ::
  "Env \<Rightarrow> RetryParams \<Rightarrow> WalletState \<Rightarrow> WalletRetryJob option \<times> WalletState" where
  "retryJobService_createRetryJob env params s =
     (if retryWriteFails env params then (None, s)
      else
        let job = \<lparr>rj_id = length (retryJobs s), rj_params = params\<rparr>
        in (Some job, s\<lparr>retryJobs := retryJobs s @ [job]\<rparr>))"

section \<open>WalletService: helpers\<close>

definition resolveAgent :: "Env \<Rightarrow> string \<Rightarrow> exn + Agent" where
  "resolveAgent env aid =
     (case agentsService_findOne env aid of
        None \<Rightarrow> Inl (NotFoundException (''Agent '' @ [CHR 0x27] @ aid @ [CHR 0x27] @ '' not found''))
      | Some agent \<Rightarrow> Inr agent)"

definition malformed :: exn where
  "malformed = InternalServerErrorException ''Malformed agent response''"

definition mapAgentResponse :: "json \<Rightarrow> exn + WalletResponse" where
  "mapAgentResponse data =
     (case data of
        JObj props \<Rightarrow>
          (case map_of props ''status'' of
             Some (JStr st) \<Rightarrow>
               Inr \<lparr>r_balance =
                      (case map_of props ''balance'' of
                         None \<Rightarrow> JNum 0
                       | Some JNull \<Rightarrow> JNum 0
                       | Some v \<Rightarrow> v),
                    r_balanceTs = (case map_of props ''balanceTs'' of None \<Rightarrow> JNull | Some v \<Rightarrow> v),
                    r_status = st,
                    r_userId = (case map_of props ''userId'' of None \<Rightarrow> JNull | Some v \<Rightarrow> v),
                    r_raw = data\<rparr>
           | _ \<Rightarrow> Inl malformed)
      | _ \<Rightarrow> Inl malformed)"

text \<open>
  The private \<^verbatim>\<open>logAudit\<close> and \<^verbatim>\<open>createRetryJobSafely\<close> start the write and
  swallow its failure.
\<close>

definition logAudit :: "Env \<Rightarrow> AuditParams \<Rightarrow> WalletState \<Rightarrow> WalletState" where
  "logAudit env params s = snd (walletAuditService_logAudit env params s)"

definition createRetryJobSafely :: "Env \<Rightarrow> RetryParams \<Rightarrow> WalletState \<Rightarrow> WalletState" where
  "createRetryJobSafely env params s = snd (retryJobService_createRetryJob env params s)"

text \<open>
  \<^verbatim>\<open>walletAuditService.logAudit(...).then(auditRecord => ...).catch(...)\<close>: the
  continuation runs with the audit row only when the audit write resolved.
\<close>

definition logAuditThen ::
  "Env \<Rightarrow> AuditParams \<Rightarrow> (WalletAudit \<Rightarrow> WalletState \<Rightarrow> WalletState) \<Rightarrow> WalletState \<Rightarrow> WalletState" where
  "logAuditThen env params continue s =
     (case walletAuditService_logAudit env params s of
        (None, s') \<Rightarrow> s'
      | (Some auditRecord, s') \<Rightarrow> continue auditRecord s')"

text \<open>
  The properties of a thrown value that the \<^verbatim>\<open>catch\<close> blocks read, and the error
  type they compute from them.
\<close>

definition frameworkError :: "Env \<Rightarrow> string \<Rightarrow> string \<Rightarrow> HttpError" where
  "frameworkError env name msg =
     \<lparr>e_response = (if frameworkErrorResponse env then Some (None, None) else None),
      e_code = None, e_name = name, e_message = msg\<rparr>"

definition thrown :: "Env \<Rightarrow> exn \<Rightarrow> HttpError" where
  "thrown env err =
     (case err of
        HttpClientError e \<Rightarrow> e
      | ConflictException m \<Rightarrow> frameworkError env ''ConflictException'' m
      | NotFoundException m \<Rightarrow> frameworkError env ''NotFoundException'' m
      | InternalServerErrorException m \<Rightarrow> frameworkError env ''InternalServerErrorException'' m
      | QueryFailedError m \<Rightarrow>
          \<lparr>e_response = None, e_code = None, e_name = ''QueryFailedError'', e_message = m\<rparr>)"

definition errorType :: "HttpError \<Rightarrow> WalletErrorType" where
  "errorType err =
     (if e_response err \<noteq> None then HTTP_ERROR
      else if e_code err = Some ''ECONNREFUSED'' \<or> e_code err = Some ''ENOTFOUND''
        then NETWORK_ERROR
      else if e_code err = Some ''ETIMEDOUT'' \<or> e_name err = ''TimeoutError''
        then TIMEOUT_ERROR
      else UNKNOWN_ERROR)"

definition httpStatusOf :: "HttpError \<Rightarrow> int option" where
  "httpStatusOf err = (case e_response err of None \<Rightarrow> None | Some r \<Rightarrow> fst r)"

definition responseDataOf :: "HttpError \<Rightarrow> json option" where
  "responseDataOf err = (case e_response err of None \<Rightarrow> Some JNull | Some r \<Rightarrow> snd r)"

definition messageOrUnknown :: "HttpError \<Rightarrow> string" where
  "messageOrUnknown err = (if e_message err \<noteq> [] then e_message err else ''Unknown error'')"

text \<open>\<^verbatim>\<open>try { ... } catch (err) { ... }\<close>: the handler runs on what the body threw.\<close>

definition catching ::
  "(exn + 'a) \<times> 's \<Rightarrow> (exn \<Rightarrow> 's \<Rightarrow> (exn + 'a) \<times> 's) \<Rightarrow> (exn + 'a) \<times> 's" where
  "catching body handler =
     (case body of
        (Inr v, s) \<Rightarrow> (Inr v, s)
      | (Inl err, s) \<Rightarrow> handler err s)"

text \<open>
  The game payloads: \<^verbatim>\<open>{ gameCode }\<close> unless the adapter is injected and answers.
\<close>

definition gamePayloadsFor :: "Env \<Rightarrow> string \<Rightarrow> obj" where
  "gamePayloadsFor env code =
     (case walletApiAdapter env of
        None \<Rightarrow> [(''gameCode'', JStr code)]
      | Some getGamePayloads \<Rightarrow>
          (case getGamePayloads code of
             Inl err \<Rightarrow> [(''gameCode'', JStr code)]
           | Inr payloads \<Rightarrow> payloads))"

definition currencyOf :: "obj \<Rightarrow> json" where
  "currencyOf gamePayloads =
     (case map_of gamePayloads ''currency'' of
        None \<Rightarrow> JStr ''USD''
      | Some c \<Rightarrow> if truthy c then c else JStr ''USD'')"

definition gameInfoText :: "Env \<Rightarrow> json option \<Rightarrow> (string \<times> json option) list" where
  "gameInfoText env info =
     (case info of
        None \<Rightarrow> []
      | Some g \<Rightarrow>
          if truthy g
          then [(''gameInfo'', Some (case g of JStr t \<Rightarrow> JStr t | _ \<Rightarrow> JStr (JSON_stringify env g)))]
          else [])"

definition post :: "Env \<Rightarrow> string \<Rightarrow> Payload \<Rightarrow> WalletState \<Rightarrow> (exn + HttpResponse) \<times> WalletState" where
  "post env url payload s =
     (case http_post env url payload of
        Inl err \<Rightarrow> (Inl (HttpClientError err), s\<lparr>sent := sent s @ [(url, payload)]\<rparr>)
      | Inr resp \<Rightarrow> (Inr resp, s\<lparr>sent := sent s @ [(url, payload)]\<rparr>))"

section \<open>WalletService: getBalance, placeBet, settleBet, refundBet\<close>

definition rejectedMessage :: "string \<Rightarrow> string \<Rightarrow> string" where
  "rejectedMessage what st = ''Agent rejected '' @ what @ '' with status: '' @ st"

text \<open>
  The audit record of a call: the part that every record of the call shares, then the
  three shapes (rejected by the agent, success, failure seen by the \<^verbatim>\<open>catch\<close> block).
\<close>

definition auditBase ::
  "Env \<Rightarrow> string \<Rightarrow> string \<Rightarrow> WalletApiAction \<Rightarrow> (json \<times> string) option \<Rightarrow> string option \<Rightarrow>
   string option \<Rightarrow> string option \<Rightarrow> rat option \<Rightarrow> rat option \<Rightarrow> json option \<Rightarrow> AuditParams" where
  "auditBase env aid uid action reqPayload url txId rid bet win cur =
     \<lparr>a_requestId = uuidv4 env, a_agentId = aid, a_userId = uid, a_apiAction = action,
      a_status = SUCCESS, a_requestPayload = reqPayload, a_requestUrl = url,
      a_responseData = None, a_httpStatus = None, a_failureType = None,
      a_errorMessage = None, a_platformTxId = txId, a_roundId = rid, a_betAmount = bet,
      a_winAmount = win, a_currency = cur, a_callbackUrl = url\<rparr>"

definition rejectedAudit :: "AuditParams \<Rightarrow> HttpResponse \<Rightarrow> WalletResponse \<Rightarrow> string \<Rightarrow> AuditParams" where
  "rejectedAudit base resp mapped errorMessage = base
     \<lparr>a_status := FAILURE, a_responseData := Some (r_raw mapped),
      a_httpStatus := Some (h_status resp), a_failureType := Some AGENT_REJECTED,
      a_errorMessage := Some errorMessage\<rparr>"

definition successAudit :: "AuditParams \<Rightarrow> HttpResponse \<Rightarrow> WalletResponse \<Rightarrow> AuditParams" where
  "successAudit base resp mapped = base
     \<lparr>a_status := SUCCESS, a_responseData := Some (r_raw mapped),
      a_httpStatus := Some (h_status resp)\<rparr>"

definition caughtAudit :: "AuditParams \<Rightarrow> HttpError \<Rightarrow> AuditParams" where
  "caughtAudit base err = base
     \<lparr>a_status := FAILURE, a_responseData := responseDataOf err,
      a_httpStatus := httpStatusOf err, a_failureType := Some (errorType err),
      a_errorMessage := Some (messageOrUnknown err)\<rparr>"

definition getBalance ::
  "Env \<Rightarrow> string \<Rightarrow> string \<Rightarrow> WalletState \<Rightarrow> (exn + WalletResponse) \<times> WalletState" where
  "getBalance env aid uid s =
     (case resolveAgent env aid of
        Inl notFound \<Rightarrow> (Inl notFound, s)
      | Inr agent \<Rightarrow>
          let url = callbackURL agent;
              messageObj = JObj [(''action'', JStr ''getBalance''), (''userId'', JStr uid)];
              payload = \<lparr>k_key = cert agent, k_message = JSON_stringify env messageObj\<rparr>;
              base = auditBase env aid uid GET_BALANCE (Some (messageObj, url)) (Some url)
                       None None None None None
          in catching
               (case post env url payload s of
                  (Inl err, s1) \<Rightarrow> (Inl err, s1)
                | (Inr resp, s1) \<Rightarrow>
                    (case mapAgentResponse (h_data resp) of
                       Inl err \<Rightarrow> (Inl err, s1)
                     | Inr mappedResponse \<Rightarrow>
                         if r_status mappedResponse \<noteq> ''0000'' then
                           let errorMessage = rejectedMessage ''getBalance'' (r_status mappedResponse)
                           in (Inl (InternalServerErrorException errorMessage),
                               logAudit env (rejectedAudit base resp mappedResponse errorMessage) s1)
                         else (Inr mappedResponse,
                               logAudit env (successAudit base resp mappedResponse) s1)))
               (\<lambda>err s2. (Inl err, logAudit env (caughtAudit base (thrown env err)) s2)))"

definition placeBetCurrency :: "PlaceBetParams \<Rightarrow> string" where
  "placeBetCurrency params =
     (case pb_currency params of
        None \<Rightarrow> ''USD''
      | Some c \<Rightarrow> if c \<noteq> [] then c else ''USD'')"

definition placeBetTxn :: "Env \<Rightarrow> PlaceBetParams \<Rightarrow> obj \<Rightarrow> obj" where
  "placeBetTxn env params gamePayloads =
     assignAll []
       ([(''platformTxId'', Some (JStr (pb_platformTxId params))),
         (''userId'', Some (JStr (pb_userId params))),
         (''currency'', Some (JStr (placeBetCurrency params)))]
        @ spread gamePayloads
        @ [(''betType'', Some JNull),
           (''betAmount'', Some (JNum (pb_amount params))),
           (''betTime'', Some (JStr (toISOString_now env))),
           (''roundId'', Some (JStr (pb_roundId params))),
           (''isPremium'', Some (JBool False))])"

text \<open>
  In \<^verbatim>\<open>placeBet\<close> the whole body is inside the \<^verbatim>\<open>try\<close>, the resolution of the
  agent included: \<^verbatim>\<open>url\<close> and \<^verbatim>\<open>messageObj\<close> are still undefined when that fails.
\<close>

definition placeBet ::
  "Env \<Rightarrow> PlaceBetParams \<Rightarrow> WalletState \<Rightarrow> (exn + WalletResponse) \<times> WalletState" where
  "placeBet env params s =
     (let currency = placeBetCurrency params;
          baseFor = (\<lambda>reqPayload url.
            auditBase env (pb_agentId params) (pb_userId params) PLACE_BET reqPayload url
              (Some (pb_platformTxId params)) (Some (pb_roundId params))
              (Some (pb_amount params)) None (Some (JStr currency)))
      in case resolveAgent env (pb_agentId params) of
           Inl notFound \<Rightarrow>
             (Inl notFound, logAudit env (caughtAudit (baseFor None None) (thrown env notFound)) s)
         | Inr agent \<Rightarrow>
             let url = callbackURL agent;
                 gamePayloads = gamePayloadsFor env (pb_gameCode params);
                 txn = placeBetTxn env params gamePayloads;
                 messageObj = JObj [(''action'', JStr ''bet''), (''txns'', JArr [JObj txn])];
                 payload = \<lparr>k_key = cert agent, k_message = JSON_stringify env messageObj\<rparr>;
                 base = baseFor (Some (messageObj, url)) (Some url)
             in catching
                  (case post env url payload s of
                     (Inl err, s1) \<Rightarrow> (Inl err, s1)
                   | (Inr resp, s1) \<Rightarrow>
                       (case mapAgentResponse (h_data resp) of
                          Inl err \<Rightarrow> (Inl err, s1)
                        | Inr mappedResponse \<Rightarrow>
                            if r_status mappedResponse \<noteq> ''0000'' then
                              let errorMessage = rejectedMessage ''bet'' (r_status mappedResponse)
                              in (Inl (InternalServerErrorException errorMessage),
                                  logAudit env
                                    (rejectedAudit base resp mappedResponse errorMessage) s1)
                            else (Inr mappedResponse,
                                  logAudit env (successAudit base resp mappedResponse) s1)))
                  (\<lambda>err s2. (Inl err, logAudit env (caughtAudit base (thrown env err)) s2)))"

definition settleBetTxn :: "Env \<Rightarrow> SettleBetParams \<Rightarrow> obj \<Rightarrow> obj" where
  "settleBetTxn env params gamePayloads =
     assignAll []
       ([(''platformTxId'', Some (JStr (sb_platformTxId params))),
         (''userId'', Some (JStr (sb_userId params)))]
        @ spread gamePayloads
        @ [(''refPlatformTxId'', Some JNull),
           (''settleType'', map_of gamePayloads ''settleType''),
           (''gameType'', map_of gamePayloads ''gameType''),
           (''gameCode'', map_of gamePayloads ''gameCode''),
           (''gameName'', map_of gamePayloads ''gameName''),
           (''betType'', Some JNull),
           (''betAmount'', Some (JNum (sb_betAmount params))),
           (''winAmount'', Some (JNum (sb_winAmount params))),
           (''betTime'', Some (JStr (toISOString_now env))),
           (''roundId'', Some (JStr (sb_roundId params)))]
        @ gameInfoText env (sb_gameSession params))"

definition settleRetry ::
  "SettleBetParams \<Rightarrow> json \<Rightarrow> string \<Rightarrow> Payload \<Rightarrow> json \<Rightarrow> obj \<Rightarrow> string \<Rightarrow> WalletAudit \<Rightarrow> RetryParams" where
  "settleRetry params messageObj url payload cur gamePayloads errorMessage auditRecord =
     \<lparr>j_platformTxId = sb_platformTxId params, j_apiAction = SETTLE_BET,
      j_agentId = sb_agentId params, j_userId = sb_userId params,
      j_requestPayload = (messageObj, url, payload), j_refundTransactions = None,
      j_callbackUrl = url, j_roundId = Some (sb_roundId params),
      j_betAmount = Some (sb_betAmount params), j_winAmount = Some (sb_winAmount params),
      j_currency = Some cur, j_gamePayloads = Some gamePayloads,
      j_walletAuditId = Some (wa_id auditRecord), j_errorMessage = Some errorMessage\<rparr>"

text \<open>
  In \<^verbatim>\<open>settleBet\<close> the agent is resolved before the \<^verbatim>\<open>try\<close>. Both failure paths
  write the audit record and, in its \<^verbatim>\<open>then\<close>, create the retry job; the
  \<^verbatim>\<open>catch\<close> block fetches the game payloads again.
\<close>

definition settleBet ::
  "Env \<Rightarrow> SettleBetParams \<Rightarrow> WalletState \<Rightarrow> (exn + WalletResponse) \<times> WalletState" where
  "settleBet env params s =
     (case resolveAgent env (sb_agentId params) of
        Inl notFound \<Rightarrow> (Inl notFound, s)
      | Inr agent \<Rightarrow>
          let url = callbackURL agent;
              gamePayloads = gamePayloadsFor env (sb_gameCode params);
              txn = settleBetTxn env params gamePayloads;
              messageObj = JObj [(''action'', JStr ''settle''), (''txns'', JArr [JObj txn])];
              payload = \<lparr>k_key = cert agent, k_message = JSON_stringify env messageObj\<rparr>;
              baseFor = (\<lambda>currency.
                auditBase env (sb_agentId params) (sb_userId params) SETTLE_BET
                  (Some (messageObj, url)) (Some url) (Some (sb_platformTxId params))
                  (Some (sb_roundId params)) (Some (sb_betAmount params))
                  (Some (sb_winAmount params)) (Some currency))
          in catching
               (case post env url payload s of
                  (Inl err, s1) \<Rightarrow> (Inl err, s1)
                | (Inr resp, s1) \<Rightarrow>
                    (case mapAgentResponse (h_data resp) of
                       Inl err \<Rightarrow> (Inl err, s1)
                     | Inr mappedResponse \<Rightarrow>
                         let currency = currencyOf gamePayloads in
                         if r_status mappedResponse \<noteq> ''0000'' then
                           let errorMessage = rejectedMessage ''settlement'' (r_status mappedResponse)
                           in (Inl (InternalServerErrorException errorMessage),
                               logAuditThen env
                                 (rejectedAudit (baseFor currency) resp mappedResponse errorMessage)
                                 (\<lambda>auditRecord.
                                    createRetryJobSafely env
                                      (settleRetry params messageObj url payload currency
                                         gamePayloads errorMessage auditRecord))
                                 s1)
                         else (Inr mappedResponse,
                               logAudit env (successAudit (baseFor currency) resp mappedResponse) s1)))
               (\<lambda>err s2.
                  let gamePayloads = gamePayloadsFor env (sb_gameCode params);
                      currency = currencyOf gamePayloads
                  in (Inl err,
                      logAuditThen env (caughtAudit (baseFor currency) (thrown env err))
                        (\<lambda>auditRecord.
                           createRetryJobSafely env
                             (settleRetry params messageObj url payload currency gamePayloads
                                (messageOrUnknown (thrown env err)) auditRecord))
                        s2)))"

definition refundTxn :: "Env \<Rightarrow> string \<Rightarrow> obj \<Rightarrow> RefundTransaction \<Rightarrow> json" where
  "refundTxn env uid gamePayloads tx =
     JObj (assignAll []
       ([(''platformTxId'', Some (JStr (rt_platformTxId tx))),
         (''userId'', Some (JStr uid)),
         (''platform'', map_of gamePayloads ''platform''),
         (''gameType'', map_of gamePayloads ''gameType''),
         (''gameCode'', map_of gamePayloads ''gameCode''),
         (''gameName'', map_of gamePayloads ''gameName''),
         (''betType'', Some JNull),
         (''betAmount'', Some (JNum (rt_betAmount tx))),
         (''winAmount'', Some (JNum (rt_winAmount tx))),
         (''turnover'',
            Some (JNum (case rt_turnover tx of None \<Rightarrow> 0 | Some t \<Rightarrow> t))),
         (''betTime'', Some (JStr (rt_betTime tx))),
         (''updateTime'', Some (JStr (rt_updateTime tx))),
         (''roundId'', Some (JStr (rt_roundId tx))),
         (''refundPlatformTxId'', Some (JStr (rt_refundPlatformTxId tx)))]
        @ gameInfoText env (rt_gameInfo tx)))"

definition firstOf :: "'a list \<Rightarrow> 'a option" where
  "firstOf xs = (case xs of [] \<Rightarrow> None | x # rest \<Rightarrow> Some x)"

definition totalBetAmount :: "RefundTransaction list \<Rightarrow> rat" where
  "totalBetAmount txns = foldl (\<lambda>sum txn. sum + rt_betAmount txn) 0 txns"

definition totalWinAmount :: "RefundTransaction list \<Rightarrow> rat" where
  "totalWinAmount txns = foldl (\<lambda>sum txn. sum + rt_winAmount txn) 0 txns"

definition refundRetry ::
  "RefundBetParams \<Rightarrow> RefundTransaction \<Rightarrow> json \<Rightarrow> string \<Rightarrow> Payload \<Rightarrow> json \<Rightarrow> obj \<Rightarrow> string \<Rightarrow>
   WalletAudit \<Rightarrow> RetryParams" where
  "refundRetry params firstTransaction messageObj url payload cur gamePayloads errorMessage
     auditRecord =
     \<lparr>j_platformTxId = rt_platformTxId firstTransaction, j_apiAction = REFUND_BET,
      j_agentId = rb_agentId params, j_userId = rb_userId params,
      j_requestPayload = (messageObj, url, payload),
      j_refundTransactions = Some (rb_refundTransactions params),
      j_callbackUrl = url, j_roundId = Some (rt_roundId firstTransaction),
      j_betAmount = Some (totalBetAmount (rb_refundTransactions params)),
      j_winAmount = Some (totalWinAmount (rb_refundTransactions params)),
      j_currency = Some cur, j_gamePayloads = Some gamePayloads,
      j_walletAuditId = Some (wa_id auditRecord), j_errorMessage = Some errorMessage\<rparr>"

text \<open>
  The continuation of the audit write in \<^verbatim>\<open>refundBet\<close>:
  \<^verbatim>\<open>if (firstTransaction) { this.createRetryJobSafely({...}) }\<close>.
\<close>

definition refundRetryIfFirst ::
  "Env \<Rightarrow> RefundBetParams \<Rightarrow> json \<Rightarrow> string \<Rightarrow> Payload \<Rightarrow> json \<Rightarrow> obj \<Rightarrow> string \<Rightarrow>
   WalletAudit \<Rightarrow> WalletState \<Rightarrow> WalletState" where
  "refundRetryIfFirst env params messageObj url payload cur gamePayloads errorMessage
     auditRecord s =
     (case firstOf (rb_refundTransactions params) of
        None \<Rightarrow> s
      | Some firstTransaction \<Rightarrow>
          createRetryJobSafely env
            (refundRetry params firstTransaction messageObj url payload cur gamePayloads
               errorMessage auditRecord) s)"

definition refundBet ::
  "Env \<Rightarrow> RefundBetParams \<Rightarrow> WalletState \<Rightarrow> (exn + WalletResponse) \<times> WalletState" where
  "refundBet env params s =
     (case resolveAgent env (rb_agentId params) of
        Inl notFound \<Rightarrow> (Inl notFound, s)
      | Inr agent \<Rightarrow>
          let url = callbackURL agent;
              firstTransaction = firstOf (rb_refundTransactions params);
              gameCode = (case firstTransaction of None \<Rightarrow> [] | Some t \<Rightarrow> rt_gameCode t);
              gamePayloads =
                (if gameCode \<noteq> [] then gamePayloadsFor env gameCode
                 else [(''gameCode'', JStr gameCode)]);
              currency = currencyOf gamePayloads;
              txns = map (refundTxn env (rb_userId params) gamePayloads)
                       (rb_refundTransactions params);
              messageObj = JObj [(''action'', JStr ''cancelBet''), (''txns'', JArr txns)];
              payload = \<lparr>k_key = cert agent, k_message = JSON_stringify env messageObj\<rparr>;
              base = auditBase env (rb_agentId params) (rb_userId params) REFUND_BET
                       (Some (messageObj, url)) (Some url)
                       (map_option rt_platformTxId firstTransaction)
                       (map_option rt_roundId firstTransaction)
                       (Some (totalBetAmount (rb_refundTransactions params)))
                       (Some (totalWinAmount (rb_refundTransactions params)))
                       (Some currency)
          in catching
               (case post env url payload s of
                  (Inl err, s1) \<Rightarrow> (Inl err, s1)
                | (Inr resp, s1) \<Rightarrow>
                    (case mapAgentResponse (h_data resp) of
                       Inl err \<Rightarrow> (Inl err, s1)
                     | Inr mappedResponse \<Rightarrow>
                         if r_status mappedResponse \<noteq> ''0000'' then
                           let errorMessage = rejectedMessage ''refund'' (r_status mappedResponse)
                           in (Inl (InternalServerErrorException errorMessage),
                               logAuditThen env
                                 (rejectedAudit base resp mappedResponse errorMessage)
                                 (refundRetryIfFirst env params messageObj url payload currency
                                    gamePayloads errorMessage)
                                 s1)
                         else (Inr mappedResponse,
                               logAudit env (successAudit base resp mappedResponse) s1)))
               (\<lambda>err s2.
                  (Inl err,
                   logAuditThen env (caughtAudit base (thrown env err))
                     (refundRetryIfFirst env params messageObj url payload currency gamePayloads
                        (messageOrUnknown (thrown env err)))
                     s2)))"

section \<open>Sequences of ledger operations\<close>




text \<open>Whether the game validation service, if one is injected, accepts a game code.\<close>

definition validationPasses :: "(string \<Rightarrow> exn option) option \<Rightarrow> string \<Rightarrow> bool" where
  "validationPasses gameValidationService code =
     (case gameValidationService of
        None \<Rightarrow> True
      | Some validateGame \<Rightarrow> validateGame code = None)"

definition samePair :: "string \<Rightarrow> string \<Rightarrow> Bet \<Rightarrow> bool" where
  "samePair tx code r \<longleftrightarrow> externalPlatformTxId r = tx \<and> gameCode r = code"

section \<open>Concrete inputs\<close>

text \<open>
  The scenario of the specification: transaction \<^verbatim>\<open>T1\<close> of game \<^verbatim>\<open>G1\<close> with
  amount \<^verbatim>\<open>5.00\<close>, and settlements of it.
\<close>

definition placeT1 :: CreateBetParams where
  "placeT1 =
     \<lparr>c_externalPlatformTxId = ''T1'', c_userId = ''u1'', c_roundId = ''r1'',
      c_betAmount = ''5.00'', c_currency = ''USD'', c_gameCode = ''G1'',
      c_createdBy = ''u1'', c_operatorId = ''op1'', c_gameMetadata = None,
      c_winAmount = None, c_status = None, c_settlementRefTxId = None, c_isPremium = None,
      c_betPlacedAt = None, c_settledAt = None, c_gameInfo = Some ''session-1'',
      c_balanceAfterBet = None, c_balanceAfterSettlement = None, c_updatedBy = None,
      c_finalCoeff = None, c_withdrawCoeff = None, c_fairnessData = None\<rparr>"

definition betT1 :: "BetStatus \<Rightarrow> Bet" where
  "betT1 st =
     \<lparr>bet_id = 1, externalPlatformTxId = ''T1'', userId = ''u1'', roundId = ''r1'',
      gameMetadata = None, betAmount = ''5.00'', winAmount = None, currency = ''USD'',
      status = st, settlementRefTxId = None, isPremium = False, betPlacedAt = None,
      settledAt = None, gameCode = ''G1'', gameInfo = Some ''session-1'',
      balanceAfterBet = None, balanceAfterSettlement = None, createdAt = 1000,
      updatedAt = 1000, createdBy = Some ''u1'', updatedBy = Some ''u1'',
      operatorId = ''op1'', finalCoeff = None, withdrawCoeff = None,
      fairnessData = None\<rparr>"

definition settleT1 :: "string \<Rightarrow> BetStatus option \<Rightarrow> SettlementParams" where
  "settleT1 win st =
     \<lparr>s_externalPlatformTxId = ''T1'', s_winAmount = win, s_updatedBy = ''settler'',
      s_gameMetadata = None, s_settlementRefTxId = None, s_settledAt = None,
      s_balanceAfterSettlement = None, s_gameInfo = None, s_finalCoeff = None,
      s_withdrawCoeff = None, s_fairnessData = None, s_status = st, s_userId = None,
      s_roundId = None, s_betAmount = None, s_currency = None, s_gameCode = None,
      s_isPremium = None, s_betPlacedAt = None, s_balanceAfterBet = None,
      s_operatorId = None\<rparr>"

definition inactiveGame :: "string \<Rightarrow> exn option" where
  "inactiveGame code = Some (NotFoundException ''Game not found or inactive'')"

definition placeT1G2 :: CreateBetParams where
  "placeT1G2 = placeT1\<lparr>c_gameCode := ''G2''\<rparr>"

definition settledT1 :: "BetStatus \<Rightarrow> string \<Rightarrow> int \<Rightarrow> Bet" where
  "settledT1 st win now =
     (betT1 st)\<lparr>winAmount := Some win, updatedBy := Some ''settler'',
                settledAt := Some now, updatedAt := now\<rparr>"



section \<open>Concrete wallet inputs\<close>

text \<open>
  One registered agent, no wallet API adapter, audit and retry writes that succeed, and
  an HTTP client whose answer to every post is given.
\<close>

definition agentA1 :: Agent where
  "agentA1 = \<lparr>callbackURL = ''https://agent.example/wallet'', cert = ''cert-A1'', agentId = ''A1''\<rparr>"

definition findAgentA1 :: "string \<Rightarrow> Agent option" where
  "findAgentA1 aid = (if aid = ''A1'' then Some agentA1 else None)"

definition answering :: "HttpError + HttpResponse \<Rightarrow> string \<Rightarrow> Payload \<Rightarrow> HttpError + HttpResponse" where
  "answering outcome url payload = outcome"

definition neverFails :: "'a \<Rightarrow> bool" where
  "neverFails x = False"

definition stringifyStub :: "json \<Rightarrow> string" where
  "stringifyStub v = ''<json>''"

definition envWith :: "HttpError + HttpResponse \<Rightarrow> Env" where
  "envWith outcome =
     \<lparr>agentsService_findOne = findAgentA1, walletApiAdapter = None,
      http_post = answering outcome, auditWriteFails = neverFails,
      retryWriteFails = neverFails, uuidv4 = ''req-1'',
      toISOString_now = ''2026-01-01T00:00:00.000Z'', JSON_stringify = stringifyStub,
      frameworkErrorResponse = True\<rparr>"

definition emptyState :: WalletState where
  "emptyState = \<lparr>audits = [], retryJobs = [], sent = []\<rparr>"

definition rejectedBy1018 :: "HttpError + HttpResponse" where
  "rejectedBy1018 = Inr \<lparr>h_status = 200, h_data = JObj [(''status'', JStr ''1018'')]\<rparr>"

definition withoutStatus :: "HttpError + HttpResponse" where
  "withoutStatus = Inr \<lparr>h_status = 200, h_data = JObj [(''balance'', JNum 10)]\<rparr>"

definition refused :: HttpError where
  "refused =
     \<lparr>e_response = None, e_code = Some ''ECONNREFUSED'', e_name = ''Error'',
      e_message = ''connect ECONNREFUSED''\<rparr>"

definition connectionRefused :: "HttpError + HttpResponse" where
  "connectionRefused = Inl refused"

definition cancelNothing :: json where
  "cancelNothing = JObj [(''action'', JStr ''cancelBet''), (''txns'', JArr [])]"

definition settleT1Params :: SettleBetParams where
  "settleT1Params =
     \<lparr>sb_agentId = ''A1'', sb_platformTxId = ''T1'', sb_userId = ''u1'', sb_winAmount = 10,
      sb_roundId = ''r1'', sb_betAmount = 5, sb_gameCode = ''G1'', sb_gameSession = None\<rparr>"

definition placeT1Params :: PlaceBetParams where
  "placeT1Params =
     \<lparr>pb_agentId = ''A1'', pb_userId = ''u1'', pb_amount = 5, pb_roundId = ''r1'',
      pb_platformTxId = ''T1'', pb_currency = None, pb_gameCode = ''G1''\<rparr>"

definition refundT1 :: RefundTransaction where
  "refundT1 =
     \<lparr>rt_platformTxId = ''T1'', rt_refundPlatformTxId = ''T1-refund'', rt_betAmount = 5,
      rt_winAmount = 0, rt_turnover = None, rt_betTime = ''2026-01-01T00:00:00.000Z'',
      rt_updateTime = ''2026-01-01T00:01:00.000Z'', rt_roundId = ''r1'',
      rt_gameCode = ''G1'', rt_gameInfo = None\<rparr>"

definition refundOf :: "RefundTransaction list \<Rightarrow> RefundBetParams" where
  "refundOf txns = \<lparr>rb_agentId = ''A1'', rb_userId = ''u1'', rb_refundTransactions = txns\<rparr>"

text \<open>
  What a call added to the audit rows and to the retry jobs, and the status and the
  failure type of an audit row.
\<close>

definition addedAudits :: "WalletState \<Rightarrow> WalletState \<Rightarrow> WalletAudit list" where
  "addedAudits s s' = drop (length (audits s)) (audits s')"

definition addedRetryJobs :: "WalletState \<Rightarrow> WalletState \<Rightarrow> WalletRetryJob list" where
  "addedRetryJobs s s' = drop (length (retryJobs s)) (retryJobs s')"

definition outcomeOf :: "WalletAudit \<Rightarrow> WalletAuditStatus \<times> WalletErrorType option" where
  "outcomeOf row = (a_status (wa_params row), a_failureType (wa_params row))"

definition caughtType :: "Env \<Rightarrow> WalletErrorType" where
  "caughtType env = (if frameworkErrorResponse env then HTTP_ERROR else UNKNOWN_ERROR)"



definition auditLinks :: "WalletAudit \<Rightarrow> string option \<times> rat option \<times> rat option" where
  "auditLinks row =
     (a_platformTxId (wa_params row), a_betAmount (wa_params row), a_winAmount (wa_params row))"

section \<open>Lemmas on the repository\<close>

lemma findOne_Some:
  "findOne w rows = Some b \<Longrightarrow> b \<in> set rows \<and> matches w b"
  by (auto simp: findOne_def find_Some_iff)

lemma findOne_replaced:
  assumes "findOne w rows = Some bet" and "matches w b'"
  shows "findOne w (map (\<lambda>r. if bet_id r = bet_id bet then b' else r) rows) = Some b'"
  using assms unfolding findOne_def
  by (induction rows) (auto split: if_splits)

lemma matches_pair:
  "samePair tx code r \<Longrightarrow> matches (whereByExternalTx tx (Some code)) r"
  by (simp add: samePair_def matches_def whereByExternalTx_def)

lemma matches_tx:
  "matches (whereByExternalTx tx g) r \<Longrightarrow> externalPlatformTxId r = tx"
  by (cases g) (auto simp: matches_def whereByExternalTx_def split: if_splits)

lemma findOne_pair:
  assumes "list_ex (samePair tx code) rows"
  shows "\<exists>e. findOne (whereByExternalTx tx (Some code)) rows = Some e"
proof -
  from assms obtain r where "r \<in> set rows" "samePair tx code r"
    by (auto simp: list_ex_iff)
  then have "\<exists>r \<in> set rows. matches (whereByExternalTx tx (Some code)) r"
    using matches_pair by blast
  then show ?thesis
    by (cases "find (matches (whereByExternalTx tx (Some code))) rows")
       (auto simp: findOne_def find_None_iff)
qed

lemma findOne_T1:
  "findOne (whereByExternalTx ''T1'' None) [betT1 st] = Some (betT1 st)"
  by (simp add: findOne_def whereByExternalTx_def matches_def betT1_def)

section \<open>createPlacement\<close>

lemma createPlacement_existing:
  assumes "validationPasses gvs (c_gameCode p)"
      and "list_ex (samePair (c_externalPlatformTxId p) (c_gameCode p)) rows"
  shows "createPlacement gvs now p rows = (Inl (ConflictException BET_EXISTS), rows)"
proof -
  from findOne_pair [OF assms(2)] obtain e where
    "findOne (whereByExternalTx (c_externalPlatformTxId p) (Some (c_gameCode p))) rows = Some e" ..
  moreover from assms(1) have
    "(case gvs of None \<Rightarrow> None | Some validateGame \<Rightarrow> validateGame (c_gameCode p)) = None"
    by (cases gvs) (auto simp: validationPasses_def)
  ultimately show ?thesis
    by (simp add: createPlacement_def)
qed

lemma createPlacement_inserted:
  assumes "createPlacement gvs now p rows = (Inr b, rows1)"
  shows "rows1 = rows @ [b] \<and> externalPlatformTxId b = c_externalPlatformTxId p
         \<and> gameCode b = c_gameCode p
         \<and> status b = (case c_status p of None \<Rightarrow> PLACED | Some st \<Rightarrow> st)
         \<and> \<not> list_ex (\<lambda>r. externalPlatformTxId r = c_externalPlatformTxId p) rows"
  using assms
  by (auto simp: createPlacement_def save_new_def Let_def split: option.splits if_splits)

text \<open>
  Claim C1, as amended. When the game validation service, if one is injected, accepts
  the game code, a placement does one of three things. If a row of its
  (\<^verbatim>\<open>externalPlatformTxId\<close>, \<^verbatim>\<open>gameCode\<close>) pair is stored, it fails with
  \<^verbatim>\<open>Conflict\<close> and leaves the table as it was. If no row stores its transaction id,
  it inserts one row, whose status is \<^verbatim>\<open>PLACED\<close> unless the caller gave one; the
  table then holds exactly one row of that pair, and any later placement of the same
  pair fails with \<^verbatim>\<open>Conflict\<close> without changing the table. If its transaction id
  is stored but no row of its pair is, and its game code is not empty, it fails with
  the error of the unique index on \<^verbatim>\<open>externalPlatformTxId\<close>, not with
  \<^verbatim>\<open>Conflict\<close>, and leaves the table as it was. No placement succeeds in another
  way: one that succeeds has appended its row.
\<close>

theorem createPlacement_idempotent:
  assumes "validationPasses gvs (c_gameCode p)"
  shows "(list_ex (samePair (c_externalPlatformTxId p) (c_gameCode p)) rows \<longrightarrow>
            createPlacement gvs now p rows = (Inl (ConflictException BET_EXISTS), rows))
       \<and> (\<not> list_ex (\<lambda>r. externalPlatformTxId r = c_externalPlatformTxId p) rows \<longrightarrow>
            (\<exists>b. createPlacement gvs now p rows = (Inr b, rows @ [b])))
       \<and> (\<forall>b rows1. createPlacement gvs now p rows = (Inr b, rows1) \<longrightarrow>
            rows1 = rows @ [b]
            \<and> (c_status p = None \<longrightarrow> status b = PLACED)
            \<and> length (filter (samePair (c_externalPlatformTxId p) (c_gameCode p)) rows1) = 1
            \<and> (\<forall>p' now'. c_externalPlatformTxId p' = c_externalPlatformTxId p
                   \<and> c_gameCode p' = c_gameCode p \<longrightarrow>
                 createPlacement gvs now' p' rows1 = (Inl (ConflictException BET_EXISTS), rows1)))
       \<and> (c_gameCode p \<noteq> []
            \<and> list_ex (\<lambda>r. externalPlatformTxId r = c_externalPlatformTxId p) rows
            \<and> \<not> list_ex (samePair (c_externalPlatformTxId p) (c_gameCode p)) rows \<longrightarrow>
            createPlacement gvs now p rows
              = (Inl (QueryFailedError ''Duplicate entry for externalPlatformTxId''), rows))"
proof (intro conjI allI impI)
  assume "list_ex (samePair (c_externalPlatformTxId p) (c_gameCode p)) rows"
  with assms show "createPlacement gvs now p rows = (Inl (ConflictException BET_EXISTS), rows)"
    by (rule createPlacement_existing)
next
  assume fresh: "\<not> list_ex (\<lambda>r. externalPlatformTxId r = c_externalPlatformTxId p) rows"
  have "findOne (whereByExternalTx (c_externalPlatformTxId p) (Some (c_gameCode p))) rows = None"
  proof (cases "findOne (whereByExternalTx (c_externalPlatformTxId p) (Some (c_gameCode p))) rows")
    case (Some e)
    then have "e \<in> set rows" "externalPlatformTxId e = c_externalPlatformTxId p"
      using findOne_Some matches_tx by blast+
    with fresh show ?thesis by (auto simp: list_ex_iff)
  qed simp
  moreover from assms have
    "(case gvs of None \<Rightarrow> None | Some validateGame \<Rightarrow> validateGame (c_gameCode p)) = None"
    by (cases gvs) (auto simp: validationPasses_def)
  ultimately show "\<exists>b. createPlacement gvs now p rows = (Inr b, rows @ [b])"
    using fresh by (simp add: createPlacement_def save_new_def Let_def)
next
  fix b rows1
  assume ok: "createPlacement gvs now p rows = (Inr b, rows1)"
  note ins = createPlacement_inserted [OF ok]
  show "rows1 = rows @ [b]" using ins by simp
  show "status b = PLACED" if "c_status p = None" using ins that by simp
  have none: "filter (samePair (c_externalPlatformTxId p) (c_gameCode p)) rows = []"
    using ins by (auto simp: filter_empty_conv list_ex_iff samePair_def)
  show "length (filter (samePair (c_externalPlatformTxId p) (c_gameCode p)) rows1) = 1"
    using ins none by (simp add: samePair_def)
  fix p' :: CreateBetParams and now' :: int
  assume same: "c_externalPlatformTxId p' = c_externalPlatformTxId p \<and> c_gameCode p' = c_gameCode p"
  have "list_ex (samePair (c_externalPlatformTxId p') (c_gameCode p')) rows1"
    using ins same by (simp add: samePair_def)
  moreover have "validationPasses gvs (c_gameCode p')" using assms same by simp
  ultimately show "createPlacement gvs now' p' rows1 = (Inl (ConflictException BET_EXISTS), rows1)"
    by (rule createPlacement_existing [rotated])
next
  assume h: "c_gameCode p \<noteq> []
             \<and> list_ex (\<lambda>r. externalPlatformTxId r = c_externalPlatformTxId p) rows
             \<and> \<not> list_ex (samePair (c_externalPlatformTxId p) (c_gameCode p)) rows"
  then have code: "c_gameCode p \<noteq> []"
    and stored: "list_ex (\<lambda>r. externalPlatformTxId r = c_externalPlatformTxId p) rows"
    and nopair: "\<not> list_ex (samePair (c_externalPlatformTxId p) (c_gameCode p)) rows"
    by simp_all
  have same: "matches (whereByExternalTx (c_externalPlatformTxId p) (Some (c_gameCode p))) r
              = samePair (c_externalPlatformTxId p) (c_gameCode p) r" for r
    using code by (simp add: matches_def whereByExternalTx_def samePair_def)
  have "findOne (whereByExternalTx (c_externalPlatformTxId p) (Some (c_gameCode p))) rows = None"
    using nopair unfolding findOne_def find_None_iff same by (simp add: list_ex_iff)
  moreover from assms have
    "(case gvs of None \<Rightarrow> None | Some validateGame \<Rightarrow> validateGame (c_gameCode p)) = None"
    by (cases gvs) (auto simp: validationPasses_def)
  ultimately show "createPlacement gvs now p rows
      = (Inl (QueryFailedError ''Duplicate entry for externalPlatformTxId''), rows)"
    using stored by (simp add: createPlacement_def save_new_def)
qed

lemma createPlacement_T1:
  "createPlacement None 1000 placeT1 [] = (Inr (betT1 PLACED), [betT1 PLACED])"
  by (simp add: createPlacement_def findOne_def save_new_def fresh_id_def placeT1_def betT1_def Let_def)

theorem createPlacement_idempotent_witness:
  "createPlacement None 1000 placeT1 [] = (Inr (betT1 PLACED), [betT1 PLACED])
   \<and> status (betT1 PLACED) = PLACED
   \<and> length (filter (samePair ''T1'' ''G1'') [betT1 PLACED]) = 1
   \<and> createPlacement None 2000 placeT1 [betT1 PLACED]
       = (Inl (ConflictException BET_EXISTS), [betT1 PLACED])"
proof -
  have v: "validationPasses None (c_gameCode placeT1)"
    by (simp add: validationPasses_def)
  have keys: "c_externalPlatformTxId placeT1 = ''T1''" "c_gameCode placeT1 = ''G1''"
    "c_status placeT1 = None"
    by (simp_all add: placeT1_def)
  from createPlacement_idempotent [OF v, of "[]" 1000] createPlacement_T1
  have "status (betT1 PLACED) = PLACED
        \<and> length (filter (samePair ''T1'' ''G1'') [betT1 PLACED]) = 1
        \<and> createPlacement None 2000 placeT1 [betT1 PLACED]
            = (Inl (ConflictException BET_EXISTS), [betT1 PLACED])"
    using keys by auto
  with createPlacement_T1 show ?thesis by simp
qed

text \<open>
  Claim C1 as stated fails in two ways. The game validation runs before the lookup, so
  with a service that rejects the game code a placement of a stored pair fails with
  \<^verbatim>\<open>NotFound\<close>, not with \<^verbatim>\<open>Conflict\<close>. And the unique index of the table is on
  \<^verbatim>\<open>externalPlatformTxId\<close> alone, so when \<^verbatim>\<open>T1\<close> is stored for game \<^verbatim>\<open>G1\<close>,
  placing (\<^verbatim>\<open>T1\<close>, \<^verbatim>\<open>G2\<close>) twice fails twice with the error of the index: no
  row of that pair is stored and no call fails with \<^verbatim>\<open>Conflict\<close>.
\<close>

theorem createPlacement_gate_and_index:
  "list_ex (samePair (c_externalPlatformTxId placeT1) (c_gameCode placeT1)) [betT1 PLACED]
   \<and> createPlacement (Some inactiveGame) 2000 placeT1 [betT1 PLACED]
       = (Inl (NotFoundException ''Game not found or inactive''), [betT1 PLACED])
   \<and> createPlacement None 2000 placeT1G2 [betT1 PLACED]
       = (Inl (QueryFailedError ''Duplicate entry for externalPlatformTxId''), [betT1 PLACED])
   \<and> createPlacement None 3000 placeT1G2 [betT1 PLACED]
       = (Inl (QueryFailedError ''Duplicate entry for externalPlatformTxId''), [betT1 PLACED])
   \<and> length (filter (samePair (c_externalPlatformTxId placeT1G2) (c_gameCode placeT1G2))
         [betT1 PLACED]) = 0"
  by (simp add: createPlacement_def findOne_def whereByExternalTx_def matches_def save_new_def
        inactiveGame_def samePair_def placeT1G2_def placeT1_def betT1_def)

section \<open>recordSettlement\<close>

lemmas Number_eval =
  Number_gt_zero_def Number_def trim_def isStrWhiteSpaceChar_def NonDecimalIntegerLiteral_def
  StrUnsignedDecimalLiteral_def isDecimalDigit_def isHexDigit_def ExponentPart_def
  digitsValue_def digitValue_def gt_zero_def

lemma Number_gt_zero_empty: "\<not> Number_gt_zero []"
  by (simp add: Number_eval)

lemma Number_examples:
  "Number_gt_zero ''10.500''" "\<not> Number_gt_zero ''0.000''"
  by (simp_all add: Number_eval)

lemma recordSettlement_found:
  assumes "findOne (whereByExternalTx (s_externalPlatformTxId p) None) rows = Some bet"
      and "status bet \<noteq> WON" and "status bet \<noteq> LOST"
  shows "recordSettlement now p rows =
           (Inr ((applySettlement now p bet)\<lparr>updatedAt := now\<rparr>),
            map (\<lambda>r. if bet_id r = bet_id bet then (applySettlement now p bet)\<lparr>updatedAt := now\<rparr>
                      else r) rows)"
  using assms by (simp add: recordSettlement_def save_def Let_def applySettlement_def)

lemma applySettlement_status:
  "status ((applySettlement now p bet)\<lparr>updatedAt := t\<rparr>) =
     (case s_status p of
        Some st \<Rightarrow> st
      | None \<Rightarrow> if Number_gt_zero (s_winAmount p) then WON else LOST)"
  using Number_gt_zero_empty
  by (simp add: applySettlement_def Let_def settledStatus_def split: option.splits)

lemma applySettlement_key:
  "externalPlatformTxId ((applySettlement now p bet)\<lparr>updatedAt := t\<rparr>) = externalPlatformTxId bet"
  "bet_id ((applySettlement now p bet)\<lparr>updatedAt := t\<rparr>) = bet_id bet"
  by (simp_all add: applySettlement_def Let_def)

text \<open>
  Claim C2. For every bet whose status is Won or Lost, \<^verbatim>\<open>recordSettlement\<close> called
  with any parameters returns the stored row unchanged, every field as it was, and
  writes nothing: the table after the call is the table before it.
\<close>

theorem recordSettlement_terminal_unchanged:
  assumes "findOne (whereByExternalTx (s_externalPlatformTxId p) None) rows = Some bet"
      and "status bet = WON \<or> status bet = LOST"
  shows "recordSettlement now p rows = (Inr bet, rows)"
  using assms by (auto simp: recordSettlement_def)

theorem recordSettlement_terminal_unchanged_witness:
  "recordSettlement 3000 (settleT1 ''9.00'' (Some WON)) [betT1 LOST]
     = (Inr (betT1 LOST), [betT1 LOST])"
proof -
  have "findOne (whereByExternalTx (s_externalPlatformTxId (settleT1 ''9.00'' (Some WON))) None)
          [betT1 LOST] = Some (betT1 LOST)"
    using findOne_T1 by (simp add: settleT1_def)
  moreover have "status (betT1 LOST) = WON \<or> status (betT1 LOST) = LOST"
    by (simp add: betT1_def)
  ultimately show ?thesis
    by (rule recordSettlement_terminal_unchanged)
qed

text \<open>
  Claim C5. For every bet that \<^verbatim>\<open>recordSettlement\<close> finds in a status other than
  Won and Lost, the call succeeds and the row it returns is the row now stored, with
  the \<^verbatim>\<open>winAmount\<close> of the request. If the caller supplied a status, that status is
  stored as it is; otherwise the stored status is \<^verbatim>\<open>WON\<close> exactly when
  \<^verbatim>\<open>Number(winAmount) > 0\<close>, and \<^verbatim>\<open>LOST\<close> exactly when it is not.
\<close>

theorem recordSettlement_status_rule:
  assumes "findOne (whereByExternalTx (s_externalPlatformTxId p) None) rows = Some bet"
      and "status bet \<noteq> WON" and "status bet \<noteq> LOST"
  shows "\<exists>settled rows'.
           recordSettlement now p rows = (Inr settled, rows')
           \<and> findOne (whereByExternalTx (s_externalPlatformTxId p) None) rows' = Some settled
           \<and> winAmount settled = Some (s_winAmount p)
           \<and> (\<forall>st. s_status p = Some st \<longrightarrow> status settled = st)
           \<and> (s_status p = None \<longrightarrow>
                 (status settled = WON \<longleftrightarrow> Number_gt_zero (s_winAmount p))
                 \<and> (status settled = LOST \<longleftrightarrow> \<not> Number_gt_zero (s_winAmount p)))"
proof -
  let ?settled = "(applySettlement now p bet)\<lparr>updatedAt := now\<rparr>"
  let ?rows' = "map (\<lambda>r. if bet_id r = bet_id bet then ?settled else r) rows"
  have res: "recordSettlement now p rows = (Inr ?settled, ?rows')"
    using assms by (rule recordSettlement_found)
  have "matches (whereByExternalTx (s_externalPlatformTxId p) None) bet"
    using assms(1) findOne_Some by blast
  then have "matches (whereByExternalTx (s_externalPlatformTxId p) None) ?settled"
    by (simp add: matches_def whereByExternalTx_def applySettlement_key)
  with assms(1) have stored:
    "findOne (whereByExternalTx (s_externalPlatformTxId p) None) ?rows' = Some ?settled"
    by (rule findOne_replaced)
  have win: "winAmount ?settled = Some (s_winAmount p)"
    by (simp add: applySettlement_def Let_def)
  have st: "status ?settled =
      (case s_status p of Some st \<Rightarrow> st
       | None \<Rightarrow> if Number_gt_zero (s_winAmount p) then WON else LOST)"
    by (rule applySettlement_status)
  have ex: "\<forall>st. s_status p = Some st \<longrightarrow> status ?settled = st"
    unfolding st by simp
  have der: "s_status p = None \<longrightarrow>
              (status ?settled = WON \<longleftrightarrow> Number_gt_zero (s_winAmount p))
              \<and> (status ?settled = LOST \<longleftrightarrow> \<not> Number_gt_zero (s_winAmount p))"
    unfolding st by simp
  show ?thesis
    apply (rule exI [of _ ?settled])
    apply (rule exI [of _ ?rows'])
    apply (intro conjI)
        apply (rule res)
       apply (rule stored)
      apply (rule win)
     apply (rule ex)
    apply (rule der)
    done
qed

lemma recordSettlement_T1:
  assumes "st \<noteq> WON" "st \<noteq> LOST"
  shows "recordSettlement now (settleT1 win ex) [betT1 st] =
     (Inr ((settledT1 st win now)\<lparr>status := settledStatus ex (Some win)\<rparr>),
      [(settledT1 st win now)\<lparr>status := settledStatus ex (Some win)\<rparr>])"
proof -
  have f: "findOne (whereByExternalTx (s_externalPlatformTxId (settleT1 win ex)) None) [betT1 st]
             = Some (betT1 st)"
    using findOne_T1 by (simp add: settleT1_def)
  have s: "status (betT1 st) \<noteq> WON" "status (betT1 st) \<noteq> LOST"
    using assms by (simp_all add: betT1_def)
  have a: "(applySettlement now (settleT1 win ex) (betT1 st))\<lparr>updatedAt := now\<rparr>
           = (settledT1 st win now)\<lparr>status := settledStatus ex (Some win)\<rparr>"
    by (simp add: applySettlement_def Let_def settleT1_def settledT1_def betT1_def
                  ifProvided_def ifProvidedOpt_def)
  show ?thesis
    unfolding recordSettlement_found [OF f s] a by simp
qed


theorem recordSettlement_status_rule_witness:
  "recordSettlement 2000 (settleT1 ''10.500'' None) [betT1 PLACED]
     = (Inr ((settledT1 PLACED ''10.500'' 2000)\<lparr>status := WON\<rparr>),
        [(settledT1 PLACED ''10.500'' 2000)\<lparr>status := WON\<rparr>])
   \<and> recordSettlement 2000 (settleT1 ''0.000'' None) [betT1 PLACED]
     = (Inr ((settledT1 PLACED ''0.000'' 2000)\<lparr>status := LOST\<rparr>),
        [(settledT1 PLACED ''0.000'' 2000)\<lparr>status := LOST\<rparr>])"
proof -
  have f: "findOne (whereByExternalTx (s_externalPlatformTxId (settleT1 w None)) None)
             [betT1 PLACED] = Some (betT1 PLACED)" for w
    using findOne_T1 by (simp add: settleT1_def)
  have s: "status (betT1 PLACED) \<noteq> WON" "status (betT1 PLACED) \<noteq> LOST"
    by (simp_all add: betT1_def)
  note n = Number_examples
  have p: "s_status (settleT1 w None) = None" "s_winAmount (settleT1 w None) = w" for w
    by (simp_all add: settleT1_def)
  have e: "recordSettlement 2000 (settleT1 w None) [betT1 PLACED]
     = (Inr ((settledT1 PLACED w 2000)\<lparr>status := settledStatus None (Some w)\<rparr>),
        [(settledT1 PLACED w 2000)\<lparr>status := settledStatus None (Some w)\<rparr>])" for w
    by (rule recordSettlement_T1) simp_all
  have k: "status ((settledT1 PLACED w 2000)\<lparr>status := x\<rparr>) = x" for w x
    by simp
  have "settledStatus None (Some ''10.500'') = WON"
    using recordSettlement_status_rule [OF f s, where now = 2000 and w1 = "''10.500''"] n(1)
    unfolding e p by (elim exE conjE) (clarsimp simp: k)
  moreover have "settledStatus None (Some ''0.000'') = LOST"
    using recordSettlement_status_rule [OF f s, where now = 2000 and w1 = "''0.000''"] n(2)
    unfolding e p by (elim exE conjE) (clarsimp simp: k)
  ultimately show ?thesis using e by simp
qed

lemma settledStatus_examples:
  "settledStatus None (Some ''10.500'') = WON" "settledStatus None (Some ''0.000'') = LOST"
  "settledStatus (Some st) w = st"
  using Number_examples by (simp_all add: settledStatus_def)

text \<open>
  Claim C6, as amended. For every bet that \<^verbatim>\<open>recordSettlement\<close> finds in a status
  other than Won and Lost, each optional field other than \<^verbatim>\<open>status\<close> that the caller
  omitted keeps the value stored before the call, \<^verbatim>\<open>settledAt\<close> is the caller's
  value when supplied and the current time otherwise, and the fields that a settlement
  cannot name keep their values too. (An omitted \<^verbatim>\<open>status\<close> is derived from
  \<^verbatim>\<open>winAmount\<close>.)
\<close>

theorem recordSettlement_omitted_fields_kept:
  assumes "findOne (whereByExternalTx (s_externalPlatformTxId p) None) rows = Some bet"
      and "status bet \<noteq> WON" and "status bet \<noteq> LOST"
  shows "\<exists>settled rows'.
           recordSettlement now p rows = (Inr settled, rows')
           \<and> (s_gameMetadata p = None \<longrightarrow> gameMetadata settled = gameMetadata bet)
           \<and> (s_settlementRefTxId p = None \<longrightarrow> settlementRefTxId settled = settlementRefTxId bet)
           \<and> (s_balanceAfterSettlement p = None \<longrightarrow> balanceAfterSettlement settled = balanceAfterSettlement bet)
           \<and> (s_gameInfo p = None \<longrightarrow> gameInfo settled = gameInfo bet)
           \<and> (s_finalCoeff p = None \<longrightarrow> finalCoeff settled = finalCoeff bet)
           \<and> (s_withdrawCoeff p = None \<longrightarrow> withdrawCoeff settled = withdrawCoeff bet)
           \<and> (s_fairnessData p = None \<longrightarrow> fairnessData settled = fairnessData bet)
           \<and> (s_userId p = None \<longrightarrow> userId settled = userId bet)
           \<and> (s_roundId p = None \<longrightarrow> roundId settled = roundId bet)
           \<and> (s_betAmount p = None \<longrightarrow> betAmount settled = betAmount bet)
           \<and> (s_currency p = None \<longrightarrow> currency settled = currency bet)
           \<and> (s_gameCode p = None \<longrightarrow> gameCode settled = gameCode bet)
           \<and> (s_isPremium p = None \<longrightarrow> isPremium settled = isPremium bet)
           \<and> (s_betPlacedAt p = None \<longrightarrow> betPlacedAt settled = betPlacedAt bet)
           \<and> (s_balanceAfterBet p = None \<longrightarrow> balanceAfterBet settled = balanceAfterBet bet)
           \<and> (s_operatorId p = None \<longrightarrow> operatorId settled = operatorId bet)
           \<and> settledAt settled = Some (case s_settledAt p of None \<Rightarrow> now | Some t \<Rightarrow> t)
           \<and> externalPlatformTxId settled = externalPlatformTxId bet
           \<and> createdBy settled = createdBy bet
           \<and> createdAt settled = createdAt bet"
proof -
  let ?settled = "(applySettlement now p bet)\<lparr>updatedAt := now\<rparr>"
  let ?rows' = "map (\<lambda>r. if bet_id r = bet_id bet then ?settled else r) rows"
  have res: "recordSettlement now p rows = (Inr ?settled, ?rows')"
    using assms by (rule recordSettlement_found)
  have frame:
    "(s_gameMetadata p = None \<longrightarrow> gameMetadata ?settled = gameMetadata bet)
     \<and> (s_settlementRefTxId p = None \<longrightarrow> settlementRefTxId ?settled = settlementRefTxId bet)
     \<and> (s_balanceAfterSettlement p = None \<longrightarrow> balanceAfterSettlement ?settled = balanceAfterSettlement bet)
     \<and> (s_gameInfo p = None \<longrightarrow> gameInfo ?settled = gameInfo bet)
     \<and> (s_finalCoeff p = None \<longrightarrow> finalCoeff ?settled = finalCoeff bet)
     \<and> (s_withdrawCoeff p = None \<longrightarrow> withdrawCoeff ?settled = withdrawCoeff bet)
     \<and> (s_fairnessData p = None \<longrightarrow> fairnessData ?settled = fairnessData bet)
     \<and> (s_userId p = None \<longrightarrow> userId ?settled = userId bet)
     \<and> (s_roundId p = None \<longrightarrow> roundId ?settled = roundId bet)
     \<and> (s_betAmount p = None \<longrightarrow> betAmount ?settled = betAmount bet)
     \<and> (s_currency p = None \<longrightarrow> currency ?settled = currency bet)
     \<and> (s_gameCode p = None \<longrightarrow> gameCode ?settled = gameCode bet)
     \<and> (s_isPremium p = None \<longrightarrow> isPremium ?settled = isPremium bet)
     \<and> (s_betPlacedAt p = None \<longrightarrow> betPlacedAt ?settled = betPlacedAt bet)
     \<and> (s_balanceAfterBet p = None \<longrightarrow> balanceAfterBet ?settled = balanceAfterBet bet)
     \<and> (s_operatorId p = None \<longrightarrow> operatorId ?settled = operatorId bet)
     \<and> settledAt ?settled = Some (case s_settledAt p of None \<Rightarrow> now | Some t \<Rightarrow> t)
     \<and> externalPlatformTxId ?settled = externalPlatformTxId bet
     \<and> createdBy ?settled = createdBy bet
     \<and> createdAt ?settled = createdAt bet"
    by (simp add: applySettlement_def Let_def ifProvided_def ifProvidedOpt_def
             split: option.splits)
  show ?thesis
    apply (rule exI [of _ ?settled])
    apply (rule exI [of _ ?rows'])
    apply (rule conjI)
     apply (rule res)
    apply (rule frame)
    done
qed

theorem recordSettlement_omitted_fields_kept_witness:
  "recordSettlement 2000 (settleT1 ''10.500'' None) [betT1 PENDING_SETTLEMENT]
     = (Inr ((settledT1 PENDING_SETTLEMENT ''10.500'' 2000)\<lparr>status := WON\<rparr>),
        [(settledT1 PENDING_SETTLEMENT ''10.500'' 2000)\<lparr>status := WON\<rparr>])
   \<and> s_gameInfo (settleT1 ''10.500'' None) = None
   \<and> gameInfo (betT1 PENDING_SETTLEMENT) = Some ''session-1''
   \<and> gameInfo ((settledT1 PENDING_SETTLEMENT ''10.500'' 2000)\<lparr>status := WON\<rparr>)
       = Some ''session-1''
   \<and> settledAt ((settledT1 PENDING_SETTLEMENT ''10.500'' 2000)\<lparr>status := WON\<rparr>) = Some 2000"
proof -
  have f: "findOne (whereByExternalTx (s_externalPlatformTxId (settleT1 ''10.500'' None)) None)
             [betT1 PENDING_SETTLEMENT] = Some (betT1 PENDING_SETTLEMENT)"
    using findOne_T1 by (simp add: settleT1_def)
  have s: "status (betT1 PENDING_SETTLEMENT) \<noteq> WON" "status (betT1 PENDING_SETTLEMENT) \<noteq> LOST"
    by (simp_all add: betT1_def)
  have p: "s_gameInfo (settleT1 ''10.500'' None) = None"
          "s_settledAt (settleT1 ''10.500'' None) = None"
    by (simp_all add: settleT1_def)
  have e: "recordSettlement 2000 (settleT1 ''10.500'' None) [betT1 PENDING_SETTLEMENT]
     = (Inr ((settledT1 PENDING_SETTLEMENT ''10.500'' 2000)\<lparr>status := WON\<rparr>),
        [(settledT1 PENDING_SETTLEMENT ''10.500'' 2000)\<lparr>status := WON\<rparr>])"
    using recordSettlement_T1 [of PENDING_SETTLEMENT 2000 "''10.500''" None]
    by (simp add: settledStatus_examples)
  have g: "gameInfo (betT1 PENDING_SETTLEMENT) = Some ''session-1''"
    by (simp add: betT1_def)
  have "gameInfo ((settledT1 PENDING_SETTLEMENT ''10.500'' 2000)\<lparr>status := WON\<rparr>)
          = Some ''session-1''
        \<and> settledAt ((settledT1 PENDING_SETTLEMENT ''10.500'' 2000)\<lparr>status := WON\<rparr>)
          = Some 2000"
    using recordSettlement_omitted_fields_kept [OF f s, where now = 2000]
    unfolding e p g by (elim exE conjE) clarsimp
  with e p g show ?thesis by simp
qed

text \<open>
  Claim C6 as stated fails for the optional field \<^verbatim>\<open>status\<close>: a settlement that
  omits it does not leave the stored status, here \<^verbatim>\<open>PLACED\<close>, as it was.
\<close>

theorem recordSettlement_omitted_status_overwritten:
  "s_status (settleT1 ''0.000'' None) = None
   \<and> status (betT1 PLACED) = PLACED
   \<and> recordSettlement 2000 (settleT1 ''0.000'' None) [betT1 PLACED]
       = (Inr ((settledT1 PLACED ''0.000'' 2000)\<lparr>status := LOST\<rparr>),
          [(settledT1 PLACED ''0.000'' 2000)\<lparr>status := LOST\<rparr>])
   \<and> status ((settledT1 PLACED ''0.000'' 2000)\<lparr>status := LOST\<rparr>) = LOST"
  using recordSettlement_T1 [of PLACED 2000 "''0.000''" None]
  by (simp add: settledStatus_examples settleT1_def betT1_def)

text \<open>
  The second copy of \<^verbatim>\<open>recordSettlement\<close> does not keep the six fields it assigns
  unconditionally: on the entity it returns, each of them is what the request holds,
  hence cleared when the caller omitted it. It keeps an omitted \<^verbatim>\<open>gameMetadata\<close>.
\<close>

lemma secondCopy_assigns_unconditionally:
  "settlementRefTxId (applySettlement_secondCopy now p bet) = s2_settlementRefTxId p"
  "balanceAfterSettlement (applySettlement_secondCopy now p bet) = s2_balanceAfterSettlement p"
  "gameInfo (applySettlement_secondCopy now p bet) = s2_gameInfo p"
  "finalCoeff (applySettlement_secondCopy now p bet) = s2_finalCoeff p"
  "withdrawCoeff (applySettlement_secondCopy now p bet) = s2_withdrawCoeff p"
  "fairnessData (applySettlement_secondCopy now p bet) = s2_fairnessData p"
  "s2_gameMetadata p = None \<Longrightarrow>
     gameMetadata (applySettlement_secondCopy now p bet) = gameMetadata bet"
  by (simp_all add: applySettlement_secondCopy_def Let_def ifProvidedOpt_def)

text \<open>
  Claim C9, as amended. The short-circuit of \<^verbatim>\<open>recordSettlement\<close> covers only Won
  and Lost: for every bet found in status Placed, PendingSettlement, Cancelled, Refunded
  or SettlementFailed the call writes the row. The row stored and returned has the
  request's \<^verbatim>\<open>winAmount\<close> and \<^verbatim>\<open>updatedBy\<close> and every field the caller provided;
  its status is the caller's when one is supplied, and otherwise it is derived, so that
  it is Won or Lost, the row differs from the one found and the table has changed.
\<close>

theorem recordSettlement_nonterminal_writes:
  assumes "findOne (whereByExternalTx (s_externalPlatformTxId p) None) rows = Some bet"
      and "status bet \<in> {PLACED, PENDING_SETTLEMENT, CANCELLED, REFUNDED, SETTLEMENT_FAILED}"
  shows "\<exists>settled rows'.
           recordSettlement now p rows = (Inr settled, rows')
           \<and> rows' = map (\<lambda>r. if bet_id r = bet_id bet then settled else r) rows
           \<and> (winAmount settled = Some (s_winAmount p)
           \<and> updatedBy settled = Some (s_updatedBy p)
           \<and> (\<forall>v. s_gameMetadata p = Some v \<longrightarrow> gameMetadata settled = Some v)
           \<and> (\<forall>v. s_settlementRefTxId p = Some v \<longrightarrow> settlementRefTxId settled = Some v)
           \<and> (\<forall>v. s_balanceAfterSettlement p = Some v \<longrightarrow> balanceAfterSettlement settled = Some v)
           \<and> (\<forall>v. s_gameInfo p = Some v \<longrightarrow> gameInfo settled = Some v)
           \<and> (\<forall>v. s_finalCoeff p = Some v \<longrightarrow> finalCoeff settled = Some v)
           \<and> (\<forall>v. s_withdrawCoeff p = Some v \<longrightarrow> withdrawCoeff settled = Some v)
           \<and> (\<forall>v. s_fairnessData p = Some v \<longrightarrow> fairnessData settled = Some v)
           \<and> (\<forall>v. s_userId p = Some v \<longrightarrow> userId settled = v)
           \<and> (\<forall>v. s_roundId p = Some v \<longrightarrow> roundId settled = v)
           \<and> (\<forall>v. s_betAmount p = Some v \<longrightarrow> betAmount settled = v)
           \<and> (\<forall>v. s_currency p = Some v \<longrightarrow> currency settled = v)
           \<and> (\<forall>v. s_gameCode p = Some v \<longrightarrow> gameCode settled = v)
           \<and> (\<forall>v. s_isPremium p = Some v \<longrightarrow> isPremium settled = v)
           \<and> (\<forall>v. s_betPlacedAt p = Some v \<longrightarrow> betPlacedAt settled = Some v)
           \<and> (\<forall>v. s_balanceAfterBet p = Some v \<longrightarrow> balanceAfterBet settled = Some v)
           \<and> (\<forall>v. s_operatorId p = Some v \<longrightarrow> operatorId settled = v)
           \<and> (\<forall>t. s_settledAt p = Some t \<longrightarrow> settledAt settled = Some t)
           \<and> (\<forall>st. s_status p = Some st \<longrightarrow> status settled = st))
           \<and> (s_status p = None \<longrightarrow>
                 (status settled = WON \<or> status settled = LOST)
                 \<and> settled \<noteq> bet \<and> rows' \<noteq> rows)"
proof -
  let ?settled = "(applySettlement now p bet)\<lparr>updatedAt := now\<rparr>"
  let ?rows' = "map (\<lambda>r. if bet_id r = bet_id bet then ?settled else r) rows"
  have nt: "status bet \<noteq> WON" "status bet \<noteq> LOST"
    using assms(2) by auto
  have res: "recordSettlement now p rows = (Inr ?settled, ?rows')"
    using assms(1) nt by (rule recordSettlement_found)
  have prov:
    "winAmount ?settled = Some (s_winAmount p)
     \<and> updatedBy ?settled = Some (s_updatedBy p)
     \<and> (\<forall>v. s_gameMetadata p = Some v \<longrightarrow> gameMetadata ?settled = Some v)
     \<and> (\<forall>v. s_settlementRefTxId p = Some v \<longrightarrow> settlementRefTxId ?settled = Some v)
     \<and> (\<forall>v. s_balanceAfterSettlement p = Some v \<longrightarrow> balanceAfterSettlement ?settled = Some v)
     \<and> (\<forall>v. s_gameInfo p = Some v \<longrightarrow> gameInfo ?settled = Some v)
     \<and> (\<forall>v. s_finalCoeff p = Some v \<longrightarrow> finalCoeff ?settled = Some v)
     \<and> (\<forall>v. s_withdrawCoeff p = Some v \<longrightarrow> withdrawCoeff ?settled = Some v)
     \<and> (\<forall>v. s_fairnessData p = Some v \<longrightarrow> fairnessData ?settled = Some v)
     \<and> (\<forall>v. s_userId p = Some v \<longrightarrow> userId ?settled = v)
     \<and> (\<forall>v. s_roundId p = Some v \<longrightarrow> roundId ?settled = v)
     \<and> (\<forall>v. s_betAmount p = Some v \<longrightarrow> betAmount ?settled = v)
     \<and> (\<forall>v. s_currency p = Some v \<longrightarrow> currency ?settled = v)
     \<and> (\<forall>v. s_gameCode p = Some v \<longrightarrow> gameCode ?settled = v)
     \<and> (\<forall>v. s_isPremium p = Some v \<longrightarrow> isPremium ?settled = v)
     \<and> (\<forall>v. s_betPlacedAt p = Some v \<longrightarrow> betPlacedAt ?settled = Some v)
     \<and> (\<forall>v. s_balanceAfterBet p = Some v \<longrightarrow> balanceAfterBet ?settled = Some v)
     \<and> (\<forall>v. s_operatorId p = Some v \<longrightarrow> operatorId ?settled = v)
     \<and> (\<forall>t. s_settledAt p = Some t \<longrightarrow> settledAt ?settled = Some t)
     \<and> (\<forall>st. s_status p = Some st \<longrightarrow> status ?settled = st)"
    by (simp add: applySettlement_def Let_def ifProvided_def ifProvidedOpt_def settledStatus_def)
  have derived: "s_status p = None \<longrightarrow>
      (status ?settled = WON \<or> status ?settled = LOST) \<and> ?settled \<noteq> bet \<and> ?rows' \<noteq> rows"
  proof
    assume none: "s_status p = None"
    have st: "status ?settled = WON \<or> status ?settled = LOST"
      unfolding applySettlement_status none by simp
    with nt have neq: "?settled \<noteq> bet" by metis
    have mem: "bet \<in> set rows" using assms(1) findOne_Some by blast
    have "?rows' \<noteq> rows"
    proof
      assume "?rows' = rows"
      then have "map (\<lambda>r. if bet_id r = bet_id bet then ?settled else r) rows = map (\<lambda>r. r) rows"
        by simp
      with mem have "(if bet_id bet = bet_id bet then ?settled else bet) = bet"
        unfolding map_eq_conv by blast
      with neq show False by simp
    qed
    with st neq
    show "(status ?settled = WON \<or> status ?settled = LOST) \<and> ?settled \<noteq> bet \<and> ?rows' \<noteq> rows"
      by (intro conjI)
  qed
  show ?thesis
    apply (rule exI [of _ ?settled])
    apply (rule exI [of _ ?rows'])
    apply (rule conjI, rule res)
    apply (rule conjI, rule refl)
    apply (rule conjI, rule prov)
    apply (rule derived)
    done
qed

text \<open>
  Claim C9 as stated fails when the caller supplies a status: the status is then not
  derived, and a cancelled bet settled with the explicit status \<^verbatim>\<open>CANCELLED\<close> stays
  cancelled, neither Won nor Lost.
\<close>

theorem recordSettlement_explicit_status_kept:
  "recordSettlement 2000 (settleT1 ''10.500'' (Some CANCELLED)) [betT1 CANCELLED]
     = (Inr (settledT1 CANCELLED ''10.500'' 2000), [settledT1 CANCELLED ''10.500'' 2000])
   \<and> status (settledT1 CANCELLED ''10.500'' 2000) = CANCELLED"
  using recordSettlement_T1 [of CANCELLED 2000 "''10.500''" "Some CANCELLED"]
  by (simp add: settledStatus_examples settledT1_def betT1_def)

theorem recordSettlement_nonterminal_writes_witness:
  "recordSettlement 2000 (settleT1 ''10.500'' None) [betT1 CANCELLED]
     = (Inr ((settledT1 CANCELLED ''10.500'' 2000)\<lparr>status := WON\<rparr>),
        [(settledT1 CANCELLED ''10.500'' 2000)\<lparr>status := WON\<rparr>])
   \<and> (settledT1 CANCELLED ''10.500'' 2000)\<lparr>status := WON\<rparr> \<noteq> betT1 CANCELLED
   \<and> winAmount ((settledT1 CANCELLED ''10.500'' 2000)\<lparr>status := WON\<rparr>) = Some ''10.500''"
proof -
  have f: "findOne (whereByExternalTx (s_externalPlatformTxId (settleT1 ''10.500'' None)) None)
             [betT1 CANCELLED] = Some (betT1 CANCELLED)"
    using findOne_T1 by (simp add: settleT1_def)
  have s: "status (betT1 CANCELLED)
             \<in> {PLACED, PENDING_SETTLEMENT, CANCELLED, REFUNDED, SETTLEMENT_FAILED}"
    by (simp add: betT1_def)
  have p: "s_status (settleT1 ''10.500'' None) = None"
          "s_winAmount (settleT1 ''10.500'' None) = ''10.500''"
    by (simp_all add: settleT1_def)
  have e: "recordSettlement 2000 (settleT1 ''10.500'' None) [betT1 CANCELLED]
     = (Inr ((settledT1 CANCELLED ''10.500'' 2000)\<lparr>status := WON\<rparr>),
        [(settledT1 CANCELLED ''10.500'' 2000)\<lparr>status := WON\<rparr>])"
    using recordSettlement_T1 [of CANCELLED 2000 "''10.500''" None]
    by (simp add: settledStatus_examples)
  have "(settledT1 CANCELLED ''10.500'' 2000)\<lparr>status := WON\<rparr> \<noteq> betT1 CANCELLED
        \<and> winAmount ((settledT1 CANCELLED ''10.500'' 2000)\<lparr>status := WON\<rparr>) = Some ''10.500''"
    using recordSettlement_nonterminal_writes [OF f s, where now = 2000]
    unfolding e p by (elim exE conjE) clarsimp
  with e show ?thesis by simp
qed

section \<open>Reachable stores\<close>













section \<open>Lemmas on the audit and retry writes\<close>

lemma logAudit_fields:
  "audits (logAudit env a s) =
     (if auditWriteFails env a then audits s
      else audits s @ [\<lparr>wa_id = length (audits s), wa_params = a\<rparr>])"
  "retryJobs (logAudit env a s) = retryJobs s"
  "sent (logAudit env a s) = sent s"
  by (simp_all add: logAudit_def walletAuditService_logAudit_def Let_def)

lemma createRetryJobSafely_fields:
  "audits (createRetryJobSafely env j s) = audits s"
  "retryJobs (createRetryJobSafely env j s) =
     (if retryWriteFails env j then retryJobs s
      else retryJobs s @ [\<lparr>rj_id = length (retryJobs s), rj_params = j\<rparr>])"
  "sent (createRetryJobSafely env j s) = sent s"
  by (simp_all add: createRetryJobSafely_def retryJobService_createRetryJob_def Let_def)

lemma logAuditThen_eq:
  "logAuditThen env a continue s =
     (if auditWriteFails env a then s
      else continue \<lparr>wa_id = length (audits s), wa_params = a\<rparr>
             (s\<lparr>audits := audits s @ [\<lparr>wa_id = length (audits s), wa_params = a\<rparr>]\<rparr>))"
  by (simp add: logAuditThen_def walletAuditService_logAudit_def Let_def)

lemma refundRetryIfFirst_fields:
  "audits (refundRetryIfFirst env rp m u pl c g e a s) = audits s"
  "sent (refundRetryIfFirst env rp m u pl c g e a s) = sent s"
  "retryJobs (refundRetryIfFirst env rp m u pl c g e a s) =
     (case rb_refundTransactions rp of
        [] \<Rightarrow> retryJobs s
      | t # ts \<Rightarrow>
          if retryWriteFails env (refundRetry rp t m u pl c g e a) then retryJobs s
          else retryJobs s @ [\<lparr>rj_id = length (retryJobs s),
                                rj_params = refundRetry rp t m u pl c g e a\<rparr>])"
  by (simp_all add: refundRetryIfFirst_def firstOf_def createRetryJobSafely_fields
               split: list.splits)

lemma audit_outcomes:
  "a_status (rejectedAudit base resp mapped msg) = FAILURE"
  "a_failureType (rejectedAudit base resp mapped msg) = Some AGENT_REJECTED"
  "a_status (caughtAudit base err) = FAILURE"
  "a_failureType (caughtAudit base err) = Some (errorType err)"
  "a_status (successAudit base resp mapped) = SUCCESS"
  by (simp_all add: rejectedAudit_def caughtAudit_def successAudit_def)

lemma audit_links:
  "a_platformTxId (rejectedAudit base resp mapped msg) = a_platformTxId base"
  "a_betAmount (rejectedAudit base resp mapped msg) = a_betAmount base"
  "a_winAmount (rejectedAudit base resp mapped msg) = a_winAmount base"
  "a_platformTxId (caughtAudit base err) = a_platformTxId base"
  "a_betAmount (caughtAudit base err) = a_betAmount base"
  "a_winAmount (caughtAudit base err) = a_winAmount base"
  "a_platformTxId (successAudit base resp mapped) = a_platformTxId base"
  "a_betAmount (successAudit base resp mapped) = a_betAmount base"
  "a_winAmount (successAudit base resp mapped) = a_winAmount base"
  "a_platformTxId (auditBase env aid uid action rq url tx rid bet win cur) = tx"
  "a_betAmount (auditBase env aid uid action rq url tx rid bet win cur) = bet"
  "a_winAmount (auditBase env aid uid action rq url tx rid bet win cur) = win"
  "a_apiAction (rejectedAudit base resp mapped msg) = a_apiAction base"
  "a_apiAction (caughtAudit base err) = a_apiAction base"
  "a_apiAction (successAudit base resp mapped) = a_apiAction base"
  "a_apiAction (auditBase env aid uid action rq url tx rid bet win cur) = action"
  by (simp_all add: rejectedAudit_def caughtAudit_def successAudit_def auditBase_def)

lemma retry_links:
  "j_walletAuditId (settleRetry sp m u pl c g e a) = Some (wa_id a)"
  "j_apiAction (settleRetry sp m u pl c g e a) = SETTLE_BET"
  "j_platformTxId (settleRetry sp m u pl c g e a) = sb_platformTxId sp"
  "j_walletAuditId (refundRetry rp t m u pl c g e a) = Some (wa_id a)"
  "j_apiAction (refundRetry rp t m u pl c g e a) = REFUND_BET"
  "j_platformTxId (refundRetry rp t m u pl c g e a) = rt_platformTxId t"
  "j_refundTransactions (refundRetry rp t m u pl c g e a) = Some (rb_refundTransactions rp)"
  by (simp_all add: settleRetry_def refundRetry_def)

lemma errorType_framework:
  "errorType (thrown env (InternalServerErrorException m)) = caughtType env"
  by (simp add: errorType_def thrown_def frameworkError_def caughtType_def)

lemma thrown_client: "thrown env (HttpClientError err) = err"
  by (simp add: thrown_def)

lemmas wallet_steps =
  resolveAgent_def post_def catching_def Let_def logAudit_fields createRetryJobSafely_fields
  logAuditThen_eq refundRetryIfFirst_fields audit_outcomes audit_links retry_links
  errorType_framework thrown_client addedAudits_def addedRetryJobs_def outcomeOf_def

text \<open>Rejected by the agent.\<close>

lemma getBalance_rejected:
  assumes "agentsService_findOne env aid = Some agent"
      and "\<forall>url payload. http_post env url payload = Inr resp"
      and "mapAgentResponse (h_data resp) = Inr mapped"
      and "r_status mapped \<noteq> ''0000''"
      and "\<forall>a. \<not> auditWriteFails env a"
  shows "fst (getBalance env aid uid s)
           = Inl (InternalServerErrorException (rejectedMessage ''getBalance'' (r_status mapped)))
         \<and> (\<exists>a1 a2. audits (snd (getBalance env aid uid s)) = audits s @ [a1, a2]
           \<and> outcomeOf a1 = (FAILURE, Some AGENT_REJECTED)
           \<and> outcomeOf a2 = (FAILURE, Some (caughtType env)))"
  using assms by (simp add: getBalance_def wallet_steps)

lemma placeBet_rejected:
  assumes "agentsService_findOne env (pb_agentId pp) = Some agent"
      and "\<forall>url payload. http_post env url payload = Inr resp"
      and "mapAgentResponse (h_data resp) = Inr mapped"
      and "r_status mapped \<noteq> ''0000''"
      and "\<forall>a. \<not> auditWriteFails env a"
  shows "fst (placeBet env pp s)
           = Inl (InternalServerErrorException (rejectedMessage ''bet'' (r_status mapped)))
         \<and> (\<exists>a1 a2. audits (snd (placeBet env pp s)) = audits s @ [a1, a2]
           \<and> outcomeOf a1 = (FAILURE, Some AGENT_REJECTED)
           \<and> outcomeOf a2 = (FAILURE, Some (caughtType env)))"
  using assms by (simp add: placeBet_def wallet_steps)

lemma settleBet_rejected:
  assumes "agentsService_findOne env (sb_agentId sp) = Some agent"
      and "\<forall>url payload. http_post env url payload = Inr resp"
      and "mapAgentResponse (h_data resp) = Inr mapped"
      and "r_status mapped \<noteq> ''0000''"
      and "\<forall>a. \<not> auditWriteFails env a"
  shows "fst (settleBet env sp s)
           = Inl (InternalServerErrorException (rejectedMessage ''settlement'' (r_status mapped)))
         \<and> (\<exists>a1 a2. audits (snd (settleBet env sp s)) = audits s @ [a1, a2]
           \<and> outcomeOf a1 = (FAILURE, Some AGENT_REJECTED)
           \<and> outcomeOf a2 = (FAILURE, Some (caughtType env)))"
  using assms by (simp add: settleBet_def wallet_steps)

lemma refundBet_rejected:
  assumes "agentsService_findOne env (rb_agentId rp) = Some agent"
      and "\<forall>url payload. http_post env url payload = Inr resp"
      and "mapAgentResponse (h_data resp) = Inr mapped"
      and "r_status mapped \<noteq> ''0000''"
      and "\<forall>a. \<not> auditWriteFails env a"
  shows "fst (refundBet env rp s)
           = Inl (InternalServerErrorException (rejectedMessage ''refund'' (r_status mapped)))
         \<and> (\<exists>a1 a2. audits (snd (refundBet env rp s)) = audits s @ [a1, a2]
           \<and> outcomeOf a1 = (FAILURE, Some AGENT_REJECTED)
           \<and> outcomeOf a2 = (FAILURE, Some (caughtType env)))"
  using assms by (simp add: refundBet_def wallet_steps)

text \<open>
  The same defect on the retry queue: a settlement or a refund that the agent rejects
  leaves two retry jobs, one from the rejection branch and one from the \<^verbatim>\<open>catch\<close>
  block.
\<close>

lemma settleBet_rejected_retries:
  assumes "agentsService_findOne env (sb_agentId sp) = Some agent"
      and "\<forall>url payload. http_post env url payload = Inr resp"
      and "mapAgentResponse (h_data resp) = Inr mapped"
      and "r_status mapped \<noteq> ''0000''"
      and "\<forall>a. \<not> auditWriteFails env a" and "\<forall>j. \<not> retryWriteFails env j"
  shows "\<exists>j1 j2. retryJobs (snd (settleBet env sp s)) = retryJobs s @ [j1, j2]"
  using assms by (simp add: settleBet_def wallet_steps)

lemma refundBet_rejected_retries:
  assumes "agentsService_findOne env (rb_agentId rp) = Some agent"
      and "\<forall>url payload. http_post env url payload = Inr resp"
      and "mapAgentResponse (h_data resp) = Inr mapped"
      and "r_status mapped \<noteq> ''0000''"
      and "\<forall>a. \<not> auditWriteFails env a" and "\<forall>j. \<not> retryWriteFails env j"
      and "rb_refundTransactions rp = t # ts"
  shows "\<exists>j1 j2. retryJobs (snd (refundBet env rp s)) = retryJobs s @ [j1, j2]"
  using assms by (simp add: refundBet_def wallet_steps)









text \<open>A body without a string-typed status.\<close>

lemma mapAgentResponse_malformed:
  "\<not> (\<exists>props st. body = JObj props \<and> map_of props ''status'' = Some (JStr st))
   \<Longrightarrow> mapAgentResponse body = Inl malformed"
  by (auto simp: mapAgentResponse_def split: json.splits option.splits)

lemma mapAgentResponse_wellformed:
  "body = JObj props \<Longrightarrow> map_of props ''status'' = Some (JStr st)
   \<Longrightarrow> \<exists>mapped. mapAgentResponse body = Inr mapped \<and> r_status mapped = st \<and> r_raw mapped = body"
  by (simp add: mapAgentResponse_def)

lemma errorType_malformed: "errorType (thrown env malformed) = caughtType env"
  by (simp add: malformed_def errorType_framework)

lemma getBalance_malformed:
  assumes "agentsService_findOne env aid = Some agent"
      and "\<forall>url payload. http_post env url payload = Inr resp"
      and "mapAgentResponse (h_data resp) = Inl malformed"
      and "\<forall>a. \<not> auditWriteFails env a"
  shows "fst (getBalance env aid uid s) = Inl malformed
         \<and> (\<exists>a. audits (snd (getBalance env aid uid s)) = audits s @ [a]
           \<and> outcomeOf a = (FAILURE, Some (caughtType env)))"
  using assms by (simp add: getBalance_def wallet_steps errorType_malformed)

lemma placeBet_malformed:
  assumes "agentsService_findOne env (pb_agentId pp) = Some agent"
      and "\<forall>url payload. http_post env url payload = Inr resp"
      and "mapAgentResponse (h_data resp) = Inl malformed"
      and "\<forall>a. \<not> auditWriteFails env a"
  shows "fst (placeBet env pp s) = Inl malformed
         \<and> (\<exists>a. audits (snd (placeBet env pp s)) = audits s @ [a]
           \<and> outcomeOf a = (FAILURE, Some (caughtType env)))"
  using assms by (simp add: placeBet_def wallet_steps errorType_malformed)

lemma settleBet_malformed:
  assumes "agentsService_findOne env (sb_agentId sp) = Some agent"
      and "\<forall>url payload. http_post env url payload = Inr resp"
      and "mapAgentResponse (h_data resp) = Inl malformed"
      and "\<forall>a. \<not> auditWriteFails env a"
  shows "fst (settleBet env sp s) = Inl malformed
         \<and> (\<exists>a. audits (snd (settleBet env sp s)) = audits s @ [a]
           \<and> outcomeOf a = (FAILURE, Some (caughtType env)))"
  using assms by (simp add: settleBet_def wallet_steps errorType_malformed)

lemma refundBet_malformed:
  assumes "agentsService_findOne env (rb_agentId rp) = Some agent"
      and "\<forall>url payload. http_post env url payload = Inr resp"
      and "mapAgentResponse (h_data resp) = Inl malformed"
      and "\<forall>a. \<not> auditWriteFails env a"
  shows "fst (refundBet env rp s) = Inl malformed
         \<and> (\<exists>a. audits (snd (refundBet env rp s)) = audits s @ [a]
           \<and> outcomeOf a = (FAILURE, Some (caughtType env)))"
  using assms by (simp add: refundBet_def wallet_steps errorType_malformed)

lemma totals_empty: "totalBetAmount [] = 0" "totalWinAmount [] = 0"
  by (simp_all add: totalBetAmount_def totalWinAmount_def)

lemma envWith_simps:
  "agentsService_findOne (envWith outcome) ''A1'' = Some agentA1"
  "http_post (envWith outcome) url payload = outcome"
  "\<not> auditWriteFails (envWith outcome) a"
  "\<not> retryWriteFails (envWith outcome) j"
  "caughtType (envWith outcome) = HTTP_ERROR"
  "caughtType ((envWith outcome)\<lparr>frameworkErrorResponse := False\<rparr>) = UNKNOWN_ERROR"
  "agentsService_findOne ((envWith outcome)\<lparr>frameworkErrorResponse := False\<rparr>) ''A1'' = Some agentA1"
  "http_post ((envWith outcome)\<lparr>frameworkErrorResponse := False\<rparr>) url payload = outcome"
  "\<not> auditWriteFails ((envWith outcome)\<lparr>frameworkErrorResponse := False\<rparr>) a"
  by (simp_all add: envWith_def findAgentA1_def answering_def neverFails_def caughtType_def)

lemma demo_agents:
  "pb_agentId placeT1Params = ''A1''" "sb_agentId settleT1Params = ''A1''"
  "rb_agentId (refundOf txns) = ''A1''" "rb_refundTransactions (refundOf txns) = txns"
  by (simp_all add: placeT1Params_def settleT1Params_def refundOf_def)

lemma added_from_empty:
  "addedAudits emptyState s = audits s" "addedRetryJobs emptyState s = retryJobs s"
  "audits emptyState = []" "retryJobs emptyState = []" "sent emptyState = []"
  by (simp_all add: addedAudits_def addedRetryJobs_def emptyState_def)

lemma errorType_refused: "errorType refused = NETWORK_ERROR"
  by (simp add: errorType_def refused_def)

text \<open>
  Claim C3, the code at an agent's rejection. When the agent is registered, the
  post is answered with a body whose \<^verbatim>\<open>status\<close> is a string other than \<^verbatim>\<open>0000\<close>
  and the audit writes succeed, each of \<^verbatim>\<open>getBalance\<close>, \<^verbatim>\<open>placeBet\<close>,
  \<^verbatim>\<open>settleBet\<close> and \<^verbatim>\<open>refundBet\<close> throws the agent-rejected error and adds two
  audit rows, not one: the row of the rejection, with status \<^verbatim>\<open>FAILURE\<close> and
  failure type \<^verbatim>\<open>AGENT_REJECTED\<close>, and then the row of the \<^verbatim>\<open>catch\<close> block, which
  catches that very error and classifies it as \<^verbatim>\<open>HTTP_ERROR\<close> (\<^verbatim>\<open>UNKNOWN_ERROR\<close>
  when the exception object has no \<^verbatim>\<open>response\<close>).
\<close>

theorem agent_rejection_audited_twice:
  assumes "agentsService_findOne env aid = Some agent0"
      and "agentsService_findOne env (pb_agentId pp) = Some agent1"
      and "agentsService_findOne env (sb_agentId sp) = Some agent2"
      and "agentsService_findOne env (rb_agentId rp) = Some agent3"
      and "\<forall>url payload. http_post env url payload = Inr resp"
      and "h_data resp = JObj props" and "map_of props ''status'' = Some (JStr st)"
      and "st \<noteq> ''0000''"
      and "\<forall>a. \<not> auditWriteFails env a"
  shows "(fst (getBalance env aid uid s)
            = Inl (InternalServerErrorException (rejectedMessage ''getBalance'' st))
          \<and> (\<exists>a1 a2. audits (snd (getBalance env aid uid s)) = audits s @ [a1, a2]
            \<and> outcomeOf a1 = (FAILURE, Some AGENT_REJECTED)
            \<and> outcomeOf a2 = (FAILURE, Some (caughtType env))))
       \<and> (fst (placeBet env pp s)
            = Inl (InternalServerErrorException (rejectedMessage ''bet'' st))
          \<and> (\<exists>a1 a2. audits (snd (placeBet env pp s)) = audits s @ [a1, a2]
            \<and> outcomeOf a1 = (FAILURE, Some AGENT_REJECTED)
            \<and> outcomeOf a2 = (FAILURE, Some (caughtType env))))
       \<and> (fst (settleBet env sp s)
            = Inl (InternalServerErrorException (rejectedMessage ''settlement'' st))
          \<and> (\<exists>a1 a2. audits (snd (settleBet env sp s)) = audits s @ [a1, a2]
            \<and> outcomeOf a1 = (FAILURE, Some AGENT_REJECTED)
            \<and> outcomeOf a2 = (FAILURE, Some (caughtType env))))
       \<and> (fst (refundBet env rp s)
            = Inl (InternalServerErrorException (rejectedMessage ''refund'' st))
          \<and> (\<exists>a1 a2. audits (snd (refundBet env rp s)) = audits s @ [a1, a2]
            \<and> outcomeOf a1 = (FAILURE, Some AGENT_REJECTED)
            \<and> outcomeOf a2 = (FAILURE, Some (caughtType env))))"
proof -
  from mapAgentResponse_wellformed [OF assms(6,7)] obtain mapped where
    m: "mapAgentResponse (h_data resp) = Inr mapped" and st: "r_status mapped = st"
    by blast
  have rej: "r_status mapped \<noteq> ''0000''" using st assms(8) by simp
  show ?thesis
    apply (intro conjI)
    using getBalance_rejected [OF assms(1) assms(5) m rej assms(9)]
          placeBet_rejected [OF assms(2) assms(5) m rej assms(9)]
          settleBet_rejected [OF assms(3) assms(5) m rej assms(9)]
          refundBet_rejected [OF assms(4) assms(5) m rej assms(9)]
    unfolding st by simp_all
qed

theorem agent_rejection_audited_twice_witness:
  "map outcomeOf (audits (snd (getBalance (envWith rejectedBy1018) ''A1'' ''u1'' emptyState)))
     = [(FAILURE, Some AGENT_REJECTED), (FAILURE, Some HTTP_ERROR)]
   \<and> map outcomeOf (audits (snd (placeBet (envWith rejectedBy1018) placeT1Params emptyState)))
     = [(FAILURE, Some AGENT_REJECTED), (FAILURE, Some HTTP_ERROR)]
   \<and> map outcomeOf (audits (snd (settleBet (envWith rejectedBy1018) settleT1Params emptyState)))
     = [(FAILURE, Some AGENT_REJECTED), (FAILURE, Some HTTP_ERROR)]
   \<and> map outcomeOf (audits (snd (refundBet (envWith rejectedBy1018) (refundOf [refundT1]) emptyState)))
     = [(FAILURE, Some AGENT_REJECTED), (FAILURE, Some HTTP_ERROR)]"
proof -
  have a: "agentsService_findOne (envWith rejectedBy1018) ''A1'' = Some agentA1"
          "agentsService_findOne (envWith rejectedBy1018) (pb_agentId placeT1Params) = Some agentA1"
          "agentsService_findOne (envWith rejectedBy1018) (sb_agentId settleT1Params) = Some agentA1"
          "agentsService_findOne (envWith rejectedBy1018) (rb_agentId (refundOf [refundT1]))
             = Some agentA1"
    by (simp_all add: envWith_simps demo_agents)
  have h: "\<forall>url payload. http_post (envWith rejectedBy1018) url payload
             = Inr \<lparr>h_status = 200, h_data = JObj [(''status'', JStr ''1018'')]\<rparr>"
    by (simp add: envWith_simps rejectedBy1018_def)
  have b: "h_data \<lparr>h_status = 200, h_data = JObj [(''status'', JStr ''1018'')]\<rparr>
             = JObj [(''status'', JStr ''1018'')]"
          "map_of [(''status'', JStr ''1018'')] ''status'' = Some (JStr ''1018'')"
          "''1018'' \<noteq> ''0000''"
    by simp_all
  have w: "\<forall>a. \<not> auditWriteFails (envWith rejectedBy1018) a"
    by (simp add: envWith_simps)
  show ?thesis
    using agent_rejection_audited_twice [OF a h b w, of "''u1''" emptyState]
    by (elim exE conjE) (simp add: added_from_empty envWith_simps)
qed



lemma refundBet_empty_refused:
  "fst (refundBet (envWith connectionRefused) (refundOf []) emptyState)
     = Inl (HttpClientError refused)
   \<and> map outcomeOf (audits (snd (refundBet (envWith connectionRefused) (refundOf []) emptyState)))
     = [(FAILURE, Some NETWORK_ERROR)]
   \<and> map auditLinks (audits (snd (refundBet (envWith connectionRefused) (refundOf []) emptyState)))
     = [(None, Some 0, Some 0)]
   \<and> retryJobs (snd (refundBet (envWith connectionRefused) (refundOf []) emptyState)) = []
   \<and> sent (snd (refundBet (envWith connectionRefused) (refundOf []) emptyState))
     = [(callbackURL agentA1,
         \<lparr>k_key = cert agentA1, k_message = JSON_stringify (envWith connectionRefused) cancelNothing\<rparr>)]"
  by (simp add: refundBet_def wallet_steps envWith_simps demo_agents connectionRefused_def
        added_from_empty errorType_refused firstOf_def totals_empty auditLinks_def
        cancelNothing_def)


lemma malformed_not_rejected:
  "malformed \<noteq> InternalServerErrorException (rejectedMessage what st)"
  by (simp add: malformed_def rejectedMessage_def)

lemma caughtType_not_rejected: "caughtType env \<noteq> AGENT_REJECTED"
  by (simp add: caughtType_def)

text \<open>
  Claim C8, as amended. When the agent is registered and the post is answered with a
  body that has no string-typed \<^verbatim>\<open>status\<close>, each of the four calls throws the
  malformed-response error at once: the sentinel is never compared, the error is not
  the agent-rejected one and no audit row of type \<^verbatim>\<open>AGENT_REJECTED\<close> is written.
  The one audit row that the call adds (when the audit write succeeds) has status
  \<^verbatim>\<open>FAILURE\<close> and the failure type that the \<^verbatim>\<open>catch\<close> block gives a framework
  exception, \<^verbatim>\<open>HTTP_ERROR\<close>, or \<^verbatim>\<open>UNKNOWN_ERROR\<close> when the exception object has
  no \<^verbatim>\<open>response\<close>: a transport classification.
\<close>

theorem malformed_response_fails_at_once:
  assumes "agentsService_findOne env aid = Some agent0"
      and "agentsService_findOne env (pb_agentId pp) = Some agent1"
      and "agentsService_findOne env (sb_agentId sp) = Some agent2"
      and "agentsService_findOne env (rb_agentId rp) = Some agent3"
      and "\<forall>url payload. http_post env url payload = Inr resp"
      and "\<not> (\<exists>props st. h_data resp = JObj props \<and> map_of props ''status'' = Some (JStr st))"
      and "\<forall>a. \<not> auditWriteFails env a"
  shows "(fst (getBalance env aid uid s) = Inl malformed
          \<and> (\<exists>a. audits (snd (getBalance env aid uid s)) = audits s @ [a]
                \<and> outcomeOf a = (FAILURE, Some (caughtType env))))
       \<and> (fst (placeBet env pp s) = Inl malformed
          \<and> (\<exists>a. audits (snd (placeBet env pp s)) = audits s @ [a]
                \<and> outcomeOf a = (FAILURE, Some (caughtType env))))
       \<and> (fst (settleBet env sp s) = Inl malformed
          \<and> (\<exists>a. audits (snd (settleBet env sp s)) = audits s @ [a]
                \<and> outcomeOf a = (FAILURE, Some (caughtType env))))
       \<and> (fst (refundBet env rp s) = Inl malformed
          \<and> (\<exists>a. audits (snd (refundBet env rp s)) = audits s @ [a]
                \<and> outcomeOf a = (FAILURE, Some (caughtType env))))
       \<and> (\<forall>what st. malformed \<noteq> InternalServerErrorException (rejectedMessage what st))
       \<and> caughtType env \<noteq> AGENT_REJECTED
       \<and> (caughtType env = HTTP_ERROR \<or> caughtType env = UNKNOWN_ERROR)"
proof -
  have m: "mapAgentResponse (h_data resp) = Inl malformed"
    using assms(6) by (rule mapAgentResponse_malformed)
  have n: "\<forall>what st. malformed \<noteq> InternalServerErrorException (rejectedMessage what st)"
    by (intro allI) (rule malformed_not_rejected)
  have c: "caughtType env = HTTP_ERROR \<or> caughtType env = UNKNOWN_ERROR"
    by (simp add: caughtType_def)
  show ?thesis
    by (rule conjI [OF getBalance_malformed [OF assms(1) assms(5) m assms(7)]
          conjI [OF placeBet_malformed [OF assms(2) assms(5) m assms(7)]
            conjI [OF settleBet_malformed [OF assms(3) assms(5) m assms(7)]
              conjI [OF refundBet_malformed [OF assms(4) assms(5) m assms(7)]
                conjI [OF n conjI [OF caughtType_not_rejected c]]]]]])
qed

lemma withoutStatus_body:
  "\<not> (\<exists>props st. h_data \<lparr>h_status = 200, h_data = JObj [(''balance'', JNum 10)]\<rparr> = JObj props
        \<and> map_of props ''status'' = Some (JStr st))"
  by simp

theorem malformed_response_fails_at_once_witness:
  "(fst (getBalance (envWith withoutStatus) ''A1'' ''u1'' emptyState) = Inl malformed
    \<and> map outcomeOf (audits (snd (getBalance (envWith withoutStatus) ''A1'' ''u1'' emptyState)))
      = [(FAILURE, Some HTTP_ERROR)])
   \<and> (fst (placeBet (envWith withoutStatus) placeT1Params emptyState) = Inl malformed
    \<and> map outcomeOf (audits (snd (placeBet (envWith withoutStatus) placeT1Params emptyState)))
      = [(FAILURE, Some HTTP_ERROR)])
   \<and> (fst (settleBet (envWith withoutStatus) settleT1Params emptyState) = Inl malformed
    \<and> map outcomeOf (audits (snd (settleBet (envWith withoutStatus) settleT1Params emptyState)))
      = [(FAILURE, Some HTTP_ERROR)])
   \<and> (fst (refundBet (envWith withoutStatus) (refundOf [refundT1]) emptyState) = Inl malformed
    \<and> map outcomeOf
         (audits (snd (refundBet (envWith withoutStatus) (refundOf [refundT1]) emptyState)))
      = [(FAILURE, Some HTTP_ERROR)])"
proof -
  have a: "agentsService_findOne (envWith withoutStatus) ''A1'' = Some agentA1"
          "agentsService_findOne (envWith withoutStatus) (pb_agentId placeT1Params) = Some agentA1"
          "agentsService_findOne (envWith withoutStatus) (sb_agentId settleT1Params) = Some agentA1"
          "agentsService_findOne (envWith withoutStatus) (rb_agentId (refundOf [refundT1]))
             = Some agentA1"
    by (simp_all add: envWith_simps demo_agents)
  have h: "\<forall>url payload. http_post (envWith withoutStatus) url payload
             = Inr \<lparr>h_status = 200, h_data = JObj [(''balance'', JNum 10)]\<rparr>"
    by (simp add: envWith_simps withoutStatus_def)
  have w: "\<forall>a. \<not> auditWriteFails (envWith withoutStatus) a"
    by (simp add: envWith_simps)
  note T = malformed_response_fails_at_once
    [OF a h withoutStatus_body w, where uid = "''u1''" and s = emptyState]
  have G: "fst (getBalance (envWith withoutStatus) ''A1'' ''u1'' emptyState) = Inl malformed
    \<and> map outcomeOf (audits (snd (getBalance (envWith withoutStatus) ''A1'' ''u1'' emptyState)))
      = [(FAILURE, Some HTTP_ERROR)]"
    using T [THEN conjunct1]
    by (elim exE conjE) (simp add: added_from_empty envWith_simps)
  have P: "fst (placeBet (envWith withoutStatus) placeT1Params emptyState) = Inl malformed
    \<and> map outcomeOf (audits (snd (placeBet (envWith withoutStatus) placeT1Params emptyState)))
      = [(FAILURE, Some HTTP_ERROR)]"
    using T [THEN conjunct2, THEN conjunct1]
    by (elim exE conjE) (simp add: added_from_empty envWith_simps)
  have S: "fst (settleBet (envWith withoutStatus) settleT1Params emptyState) = Inl malformed
    \<and> map outcomeOf (audits (snd (settleBet (envWith withoutStatus) settleT1Params emptyState)))
      = [(FAILURE, Some HTTP_ERROR)]"
    using T [THEN conjunct2, THEN conjunct2, THEN conjunct1]
    by (elim exE conjE) (simp add: added_from_empty envWith_simps)
  have R: "fst (refundBet (envWith withoutStatus) (refundOf [refundT1]) emptyState) = Inl malformed
    \<and> map outcomeOf
         (audits (snd (refundBet (envWith withoutStatus) (refundOf [refundT1]) emptyState)))
      = [(FAILURE, Some HTTP_ERROR)]"
    using T [THEN conjunct2, THEN conjunct2, THEN conjunct2, THEN conjunct1]
    by (elim exE conjE) (simp add: added_from_empty envWith_simps)
  show ?thesis
    by (rule conjI [OF G conjI [OF P conjI [OF S R]]])
qed

text \<open>
  Claim C8 as stated fails in its last part: the audit row of a malformed response is
  classified as a transport failure, \<^verbatim>\<open>HTTP_ERROR\<close> when the exception object has a
  \<^verbatim>\<open>response\<close> property and \<^verbatim>\<open>UNKNOWN_ERROR\<close> when it has none.
\<close>

theorem malformed_response_audited_as_transport:
  "fst (getBalance (envWith withoutStatus) ''A1'' ''u1'' emptyState) = Inl malformed
   \<and> map outcomeOf (audits (snd (getBalance (envWith withoutStatus) ''A1'' ''u1'' emptyState)))
     = [(FAILURE, Some HTTP_ERROR)]
   \<and> map outcomeOf
       (audits (snd (getBalance ((envWith withoutStatus)\<lparr>frameworkErrorResponse := False\<rparr>)
                      ''A1'' ''u1'' emptyState)))
     = [(FAILURE, Some UNKNOWN_ERROR)]"
proof -
  have m: "mapAgentResponse (h_data \<lparr>h_status = 200, h_data = JObj [(''balance'', JNum 10)]\<rparr>)
             = Inl malformed"
    using withoutStatus_body by (rule mapAgentResponse_malformed)
  have 1: "fst (getBalance (envWith withoutStatus) ''A1'' ''u1'' emptyState) = Inl malformed
   \<and> map outcomeOf (audits (snd (getBalance (envWith withoutStatus) ''A1'' ''u1'' emptyState)))
     = [(FAILURE, Some HTTP_ERROR)]"
    using getBalance_malformed [where env = "envWith withoutStatus" and aid = "''A1''"
        and uid = "''u1''" and s = emptyState and agent = agentA1
        and resp = "\<lparr>h_status = 200, h_data = JObj [(''balance'', JNum 10)]\<rparr>"] m
    by (simp add: envWith_simps withoutStatus_def added_from_empty) (elim exE conjE, simp)
  have 2: "map outcomeOf
       (audits (snd (getBalance ((envWith withoutStatus)\<lparr>frameworkErrorResponse := False\<rparr>)
                      ''A1'' ''u1'' emptyState)))
     = [(FAILURE, Some UNKNOWN_ERROR)]"
    using getBalance_malformed
      [where env = "(envWith withoutStatus)\<lparr>frameworkErrorResponse := False\<rparr>"
        and aid = "''A1''" and uid = "''u1''" and s = emptyState and agent = agentA1
        and resp = "\<lparr>h_status = 200, h_data = JObj [(''balance'', JNum 10)]\<rparr>"] m
    by (simp add: envWith_simps withoutStatus_def added_from_empty) (elim exE conjE, simp)
  from 1 2 show ?thesis by simp
qed

text \<open>
  Claim C10. For every \<^verbatim>\<open>refundBet\<close> call with an empty list of transactions whose
  agent is registered, the gateway posts to the agent's callback URL one message, the
  \<^verbatim>\<open>cancelBet\<close> action with an empty \<^verbatim>\<open>txns\<close> array; it never creates a retry
  job, whatever the outcome; every audit row it adds is a refund row without
  \<^verbatim>\<open>platformTxId\<close> and with bet and win amounts \<open>0\<close>; and when the call fails and
  the audit writes succeed, it adds an audit row of status \<^verbatim>\<open>FAILURE\<close>.
\<close>

theorem refundBet_empty_batch:
  assumes "agentsService_findOne env (rb_agentId rp) = Some agent"
      and "rb_refundTransactions rp = []"
  shows "sent (snd (refundBet env rp s))
           = sent s @ [(callbackURL agent,
                        \<lparr>k_key = cert agent,
                         k_message = JSON_stringify env
                           (JObj [(''action'', JStr ''cancelBet''), (''txns'', JArr [])])\<rparr>)]
       \<and> retryJobs (snd (refundBet env rp s)) = retryJobs s
       \<and> audits (snd (refundBet env rp s)) = audits s @ addedAudits s (snd (refundBet env rp s))
       \<and> (\<forall>a \<in> set (addedAudits s (snd (refundBet env rp s))).
             a_apiAction (wa_params a) = REFUND_BET \<and> a_platformTxId (wa_params a) = None
             \<and> a_betAmount (wa_params a) = Some 0 \<and> a_winAmount (wa_params a) = Some 0)
       \<and> ((\<forall>a. \<not> auditWriteFails env a) \<longrightarrow>
            (\<forall>err. fst (refundBet env rp s) = Inl err \<longrightarrow>
               (\<exists>a \<in> set (addedAudits s (snd (refundBet env rp s))).
                  a_status (wa_params a) = FAILURE)))"
proof -
  let ?post = "http_post env (callbackURL agent)
                 \<lparr>k_key = cert agent,
                  k_message = JSON_stringify env
                    (JObj [(''action'', JStr ''cancelBet''), (''txns'', JArr [])])\<rparr>"
  note unfold = refundBet_def wallet_steps firstOf_def totals_empty
  show ?thesis
  proof (cases ?post)
    case (Inl err)
    then show ?thesis using assms by (simp add: unfold)
  next
    case (Inr resp)
    note posted = Inr
    show ?thesis
    proof (cases "mapAgentResponse (h_data resp)")
      case (Inl err)
      then show ?thesis using assms posted by (simp add: unfold)
    next
      case (Inr mapped)
      show ?thesis
      proof (cases "r_status mapped = ''0000''")
        case True
        then show ?thesis using assms posted Inr by (simp add: unfold)
      next
        case False
        then show ?thesis using assms posted Inr by (simp add: unfold)
      qed
    qed
  qed
qed

theorem refundBet_empty_batch_witness:
  "sent (snd (refundBet (envWith connectionRefused) (refundOf []) emptyState))
     = [(callbackURL agentA1,
         \<lparr>k_key = cert agentA1,
          k_message = JSON_stringify (envWith connectionRefused)
            (JObj [(''action'', JStr ''cancelBet''), (''txns'', JArr [])])\<rparr>)]
   \<and> retryJobs (snd (refundBet (envWith connectionRefused) (refundOf []) emptyState)) = []
   \<and> map outcomeOf (audits (snd (refundBet (envWith connectionRefused) (refundOf []) emptyState)))
     = [(FAILURE, Some NETWORK_ERROR)]
   \<and> map auditLinks (audits (snd (refundBet (envWith connectionRefused) (refundOf []) emptyState)))
     = [(None, Some 0, Some 0)]"
proof -
  have a: "agentsService_findOne (envWith connectionRefused) (rb_agentId (refundOf [])) = Some agentA1"
    by (simp add: envWith_simps demo_agents)
  have e: "rb_refundTransactions (refundOf []) = []"
    by (simp add: demo_agents)
  note T = refundBet_empty_batch [OF a e, where s = emptyState]
  have 1: "sent (snd (refundBet (envWith connectionRefused) (refundOf []) emptyState))
     = [(callbackURL agentA1,
         \<lparr>k_key = cert agentA1,
          k_message = JSON_stringify (envWith connectionRefused)
            (JObj [(''action'', JStr ''cancelBet''), (''txns'', JArr [])])\<rparr>)]"
    using T [THEN conjunct1] by (simp add: added_from_empty)
  have 2: "retryJobs (snd (refundBet (envWith connectionRefused) (refundOf []) emptyState)) = []"
    using T [THEN conjunct2, THEN conjunct1] by (simp add: added_from_empty)
  have 3: "map outcomeOf (audits (snd (refundBet (envWith connectionRefused) (refundOf []) emptyState)))
     = [(FAILURE, Some NETWORK_ERROR)]"
    using refundBet_empty_refused by simp
  have 4: "map auditLinks (audits (snd (refundBet (envWith connectionRefused) (refundOf []) emptyState)))
     = [(None, Some 0, Some 0)]"
    using refundBet_empty_refused by simp
  show ?thesis
    by (rule conjI [OF 1 conjI [OF 2 conjI [OF 3 4]]])
qed

end
